theory Spec2Isabelle
  imports Complex_Main
begin

section \<open>BikeNYCDeepSTN: the data model\<close>

text \<open>
  The embedding follows \<^verbatim>\<open>geotorchai/datasets/grid/nyc_bike_deepstn.py\<close>.
  Every exception the class can raise is a value of \<open>error\<close>; a method that may raise
  returns \<open>error + 'a\<close> with \<open>Inl\<close> for the exception.

  Python's integers are \<open>int\<close>. Array elements are idealised as rationals: the source
  computes in floating point, and the model says nothing about rounding, \<open>nan\<close> or \<open>inf\<close>
  (a division by zero in numpy yields \<open>nan\<close>/\<open>inf\<close> with a warning, in HOL it yields 0; no
  theorem below relies on such a quotient).
\<close>

datatype error = InvalidParametersException | ValueError | IndexError | AttributeError

type_synonym 'a grid = "'a list list"
type_synonym 'a frame = "'a grid list"

text \<open>
  A four-dimensional numpy array of shape \<open>(len, channels, height, width)\<close>. The leading
  dimension is the number of rows; the other three are carried explicitly, because an
  array with no rows still has them (\<open>(0, C, H, W)\<close>).
\<close>

record 'a array4 =
  a_chan :: nat
  a_height :: nat
  a_width :: nat
  a_rows :: "'a frame list"

text \<open>A three-dimensional array \<open>(channels, height, width)\<close>: the POI grid.\<close>

record 'a array3 =
  b_height :: nat
  b_width :: nat
  b_rows :: "'a grid list"

definition shape4 :: "'a array4 \<Rightarrow> nat \<times> nat \<times> nat \<times> nat" where
  "shape4 a = (length (a_rows a), a_chan a, a_height a, a_width a)"

definition flat4 :: "'a array4 \<Rightarrow> 'a list" where
  "flat4 a = concat (concat (concat (a_rows a)))"

definition map4 :: "('a \<Rightarrow> 'b) \<Rightarrow> 'a array4 \<Rightarrow> 'b array4" where
  "map4 f a = \<lparr>a_chan = a_chan a, a_height = a_height a, a_width = a_width a,
               a_rows = map (map (map (map f))) (a_rows a)\<rparr>"

subsection \<open>numpy primitives\<close>

text \<open>
  A slice bound of Python: a negative bound counts from the end, and the result is
  clamped into \<open>[0, n]\<close>.
\<close>

definition slice_bound :: "nat \<Rightarrow> int \<Rightarrow> nat" where
  "slice_bound n i = (if i < 0 then nat (max 0 (int n + i)) else nat (min i (int n)))"

definition slice_rows :: "int \<Rightarrow> int \<Rightarrow> 'a list \<Rightarrow> 'a list" where
  "slice_rows start stop xs =
     (let a = slice_bound (length xs) start; b = slice_bound (length xs) stop
      in take (b - a) (drop a xs))"

text \<open>\<^verbatim>\<open>a[start:stop]\<close> and \<^verbatim>\<open>a[start:]\<close> on the leading axis.\<close>

definition slice4 :: "int \<Rightarrow> int \<Rightarrow> 'a array4 \<Rightarrow> 'a array4" where
  "slice4 start stop a = a\<lparr>a_rows := slice_rows start stop (a_rows a)\<rparr>"

definition slice4_from :: "int \<Rightarrow> 'a array4 \<Rightarrow> 'a array4" where
  "slice4_from start a = a\<lparr>a_rows := drop (slice_bound (length (a_rows a)) start) (a_rows a)\<rparr>"

text \<open>
  \<^verbatim>\<open>np.concatenate((a, b), axis=1)\<close>: every dimension but the channel axis must agree,
  otherwise numpy raises \<^verbatim>\<open>ValueError\<close>.
\<close>

definition concatenate1 :: "'a array4 \<Rightarrow> 'a array4 \<Rightarrow> error + 'a array4" where
  "concatenate1 a b =
     (if length (a_rows a) = length (a_rows b) \<and> a_height a = a_height b \<and> a_width a = a_width b
      then Inr \<lparr>a_chan = a_chan a + a_chan b, a_height = a_height a, a_width = a_width a,
                a_rows = map2 (@) (a_rows a) (a_rows b)\<rparr>
      else Inl ValueError)"

text \<open>
  \<^verbatim>\<open>%\<close> and \<^verbatim>\<open>//\<close> of an integer array by an integer scalar: floored, as in HOL, except
  that numpy yields 0 (with a warning) for a zero divisor.
\<close>

definition np_mod :: "int \<Rightarrow> int \<Rightarrow> int" where
  "np_mod a b = (if b = 0 then 0 else a mod b)"

definition np_floordiv :: "int \<Rightarrow> int \<Rightarrow> int" where
  "np_floordiv a b = (if b = 0 then 0 else a div b)"

text \<open>\<^verbatim>\<open>np.max\<close> and \<^verbatim>\<open>np.min\<close> raise \<^verbatim>\<open>ValueError\<close> on an array without elements.\<close>

definition np_max :: "rat list \<Rightarrow> error + rat" where
  "np_max xs = (case xs of [] \<Rightarrow> Inl ValueError | x # ys \<Rightarrow> Inr (fold max ys x))"

definition np_min :: "rat list \<Rightarrow> error + rat" where
  "np_min xs = (case xs of [] \<Rightarrow> Inl ValueError | x # ys \<Rightarrow> Inr (fold min ys x))"

definition np_zeros :: "nat \<Rightarrow> nat \<Rightarrow> nat \<Rightarrow> nat \<Rightarrow> rat array4" where
  "np_zeros n c h w = \<lparr>a_chan = c, a_height = h, a_width = w,
                       a_rows = replicate n (replicate c (replicate h (replicate w 0)))\<rparr>"

text \<open>
  An integer index into an axis of the given size: valid from \<open>-size\<close> to \<open>size - 1\<close>, a
  negative one counts from the end.
\<close>

definition wrap_index :: "nat \<Rightarrow> int \<Rightarrow> int" where
  "wrap_index sz i = (if i < 0 then i + int sz else i)"

definition index_ok :: "nat \<Rightarrow> int \<Rightarrow> bool" where
  "index_ok sz i = (0 \<le> wrap_index sz i \<and> wrap_index sz i < int sz)"

text \<open>\<^verbatim>\<open>m[i, c, :, :] = 1\<close>; an index out of range raises \<^verbatim>\<open>IndexError\<close>.\<close>

definition set_channel :: "rat array4 \<Rightarrow> nat \<Rightarrow> int \<Rightarrow> error + rat array4" where
  "set_channel m i c =
     (if i < length (a_rows m) \<and> index_ok (a_chan m) c
      then Inr (m\<lparr>a_rows := (a_rows m)
                  [i := (a_rows m ! i)[nat (wrap_index (a_chan m) c) :=
                                         replicate (a_height m) (replicate (a_width m) 1)]]\<rparr>)
      else Inl IndexError)"

subsection \<open>The temporal encoder\<close>

text \<open>The loop \<^verbatim>\<open>for i in range(len_total): matrix[i, idx[i], :, :] = 1\<close>.\<close>

fun fill_onehot :: "(nat \<Rightarrow> int) \<Rightarrow> nat list \<Rightarrow> rat array4 \<Rightarrow> error + rat array4" where
  "fill_onehot idx [] m = Inr m"
| "fill_onehot idx (i # rest) m =
     (case set_channel m i (idx i) of
        Inl e \<Rightarrow> Inl e
      | Inr m' \<Rightarrow> fill_onehot idx rest m')"

definition time_hour :: "int \<Rightarrow> nat \<Rightarrow> int" where
  "time_hour T_period i = np_mod (int i) T_period"

definition time_day :: "int \<Rightarrow> nat \<Rightarrow> int" where
  "time_day T_period i = np_mod (np_floordiv (int i) T_period) 7"

definition matrix_hour :: "nat \<Rightarrow> int \<Rightarrow> nat \<Rightarrow> nat \<Rightarrow> error + rat array4" where
  "matrix_hour len_total T_period map_height map_width =
     fill_onehot (time_hour T_period) [0..<len_total] (np_zeros len_total 24 map_height map_width)"

definition matrix_day :: "nat \<Rightarrow> int \<Rightarrow> nat \<Rightarrow> nat \<Rightarrow> error + rat array4" where
  "matrix_day len_total T_period map_height map_width =
     fill_onehot (time_day T_period) [0..<len_total] (np_zeros len_total 7 map_height map_width)"

definition matrix_T :: "nat \<Rightarrow> int \<Rightarrow> nat \<Rightarrow> nat \<Rightarrow> error + rat array4" where
  "matrix_T len_total T_period map_height map_width =
     (case matrix_hour len_total T_period map_height map_width of
        Inl e \<Rightarrow> Inl e
      | Inr mh \<Rightarrow>
          (case matrix_day len_total T_period map_height map_width of
             Inl e \<Rightarrow> Inl e
           | Inr md \<Rightarrow> concatenate1 mh md))"

subsection \<open>The skip offset\<close>

definition number_of_skip_hours :: "int \<Rightarrow> int \<Rightarrow> int \<Rightarrow> int \<Rightarrow> int \<Rightarrow> int \<Rightarrow> error + int" where
  "number_of_skip_hours len_closeness len_period len_trend T_closeness T_period T_trend =
     (if len_trend > 0 then Inr (T_trend * len_trend)
      else if len_period > 0 then Inr (T_period * len_period)
      else if len_closeness > 0 then Inr (T_closeness * len_closeness)
      else Inl InvalidParametersException)"

subsection \<open>The window slicer\<close>

text \<open>
  The three blocks that build \<^verbatim>\<open>X_closeness\<close>, \<^verbatim>\<open>X_period\<close> and \<^verbatim>\<open>X_trend\<close> are the same
  code up to the names of the step \<open>T\<close> and the length \<open>L\<close>; \<open>lag_window\<close> is that block.
  \<open>lag_slice\<close> is \<^verbatim>\<open>all_data[skip - T*k : len_total - T*k]\<close>.
\<close>

definition lag_slice :: "'a array4 \<Rightarrow> int \<Rightarrow> int \<Rightarrow> int \<Rightarrow> 'a array4" where
  "lag_slice all_data skip T k =
     slice4 (skip - T * k) (int (length (a_rows all_data)) - T * k) all_data"

fun concat_lags :: "'a array4 \<Rightarrow> int \<Rightarrow> int \<Rightarrow> nat list \<Rightarrow> 'a array4 \<Rightarrow> error + 'a array4" where
  "concat_lags all_data skip T [] X = Inr X"
| "concat_lags all_data skip T (i # rest) X =
     (case concatenate1 X (lag_slice all_data skip T (2 + int i)) of
        Inl e \<Rightarrow> Inl e
      | Inr X' \<Rightarrow> concat_lags all_data skip T rest X')"

definition lag_window :: "'a array4 \<Rightarrow> int \<Rightarrow> int \<Rightarrow> int \<Rightarrow> error + 'a array4" where
  "lag_window all_data skip T L =
     concat_lags all_data skip T [0..<nat (L - 1)] (lag_slice all_data skip T 1)"

text \<open>An attribute that is assigned only under \<^verbatim>\<open>if L > 0\<close>: \<open>None\<close> is "never assigned".\<close>

definition scale_attr :: "'a array4 \<Rightarrow> int \<Rightarrow> int \<Rightarrow> int \<Rightarrow> error + 'a array4 option" where
  "scale_attr all_data skip T L =
     (if L > 0 then (case lag_window all_data skip T L of Inl e \<Rightarrow> Inl e | Inr X \<Rightarrow> Inr (Some X))
      else Inr None)"

definition read_attr :: "'a option \<Rightarrow> error + 'a" where
  "read_attr x = (case x of None \<Rightarrow> Inl AttributeError | Some v \<Rightarrow> Inr v)"

subsection \<open>The POI features\<close>

text \<open>\<^verbatim>\<open>poi[i] = poi[i] / np.max(poi[i])\<close> for every channel, in order.\<close>

fun normalize_poi :: "rat grid list \<Rightarrow> error + rat grid list" where
  "normalize_poi [] = Inr []"
| "normalize_poi (g # rest) =
     (case np_max (concat g) of
        Inl e \<Rightarrow> Inl e
      | Inr m \<Rightarrow>
          (case normalize_poi rest of
             Inl e \<Rightarrow> Inl e
           | Inr rest' \<Rightarrow> Inr (map (map (\<lambda>x. x / m)) g # rest')))"

text \<open>
  \<^verbatim>\<open>poi.reshape(1, poi.shape[0], map_height, map_width)\<close> regroups the elements in row-major
  order and raises \<^verbatim>\<open>ValueError\<close> when the sizes differ; \<^verbatim>\<open>np.repeat(_, len_data, axis=0)\<close>
  then repeats the single frame.
\<close>

definition reshape_frame :: "nat \<Rightarrow> nat \<Rightarrow> nat \<Rightarrow> 'a list \<Rightarrow> 'a frame" where
  "reshape_frame c h w xs =
     map (\<lambda>ci. map (\<lambda>ri. take w (drop ((ci * h + ri) * w) xs)) [0..<h]) [0..<c]"

definition repeat_poi :: "rat array3 \<Rightarrow> rat grid list \<Rightarrow> nat \<Rightarrow> nat \<Rightarrow> nat \<Rightarrow> error + rat array4" where
  "repeat_poi poi grids map_height map_width len_data =
     (let c = length (b_rows poi)
      in if c * b_height poi * b_width poi = 1 * c * map_height * map_width
         then Inr \<lparr>a_chan = c, a_height = map_height, a_width = map_width,
                   a_rows = replicate len_data
                              (reshape_frame c map_height map_width (concat (concat grids)))\<rparr>
         else Inl ValueError)"

subsection \<open>Construction of the feature arrays\<close>

text \<open>
  The six attributes \<^verbatim>\<open>_create_feature_vector\<close> leaves on the object; field \<open>f_X\<close> is
  \<^verbatim>\<open>self.X\<close>.
\<close>

record features =
  f_X_closeness :: "rat array4"
  f_X_period :: "rat array4"
  f_X_trend :: "rat array4"
  f_T_data :: "rat array4"
  f_P_data :: "rat array4"
  f_Y_data :: "rat array4"

definition create_feature_vector ::
  "rat array4 \<Rightarrow> rat array3 \<Rightarrow> int \<Rightarrow> int \<Rightarrow> int \<Rightarrow> int \<Rightarrow> int \<Rightarrow> int \<Rightarrow> error + features" where
  "create_feature_vector all_data poi len_closeness len_period len_trend T_closeness T_period T_trend =
     (let len_total = length (a_rows all_data);
          map_height = a_height all_data;
          map_width = a_width all_data
      in case matrix_T len_total T_period map_height map_width of
           Inl e \<Rightarrow> Inl e
         | Inr mT \<Rightarrow>
      (case number_of_skip_hours len_closeness len_period len_trend T_closeness T_period T_trend of
           Inl e \<Rightarrow> Inl e
         | Inr skip \<Rightarrow>
      (let Y = slice4 skip (int len_total) all_data
       in case scale_attr all_data skip T_closeness len_closeness of
            Inl e \<Rightarrow> Inl e
          | Inr Xc \<Rightarrow>
       (case scale_attr all_data skip T_period len_period of
            Inl e \<Rightarrow> Inl e
          | Inr Xp \<Rightarrow>
       (case scale_attr all_data skip T_trend len_trend of
            Inl e \<Rightarrow> Inl e
          | Inr Xt \<Rightarrow>
       (let T = slice4_from skip mT
        in case read_attr Xc of
             Inl e \<Rightarrow> Inl e
           | Inr Xc' \<Rightarrow>
        (let len_data = length (a_rows Xc')
         in case normalize_poi (b_rows poi) of
              Inl e \<Rightarrow> Inl e
            | Inr grids \<Rightarrow>
         (case repeat_poi poi grids map_height map_width len_data of
              Inl e \<Rightarrow> Inl e
            | Inr P \<Rightarrow>
         (case read_attr Xp of
              Inl e \<Rightarrow> Inl e
            | Inr Xp' \<Rightarrow>
         (case read_attr Xt of
              Inl e \<Rightarrow> Inl e
            | Inr Xt' \<Rightarrow>
                Inr \<lparr>f_X_closeness = Xc', f_X_period = Xp', f_X_trend = Xt',
                     f_T_data = T, f_P_data = P, f_Y_data = Y\<rparr>))))))))))"

section \<open>The dataset object\<close>

text \<open>
  \<^verbatim>\<open>Y_data\<close> holds the four-dimensional target after construction and the five-dimensional
  stack of prediction windows after \<^verbatim>\<open>set_sequential_representation\<close>; \<^verbatim>\<open>X_data\<close>,
  \<^verbatim>\<open>lead_time_data\<close> and \<^verbatim>\<open>lead_time\<close> do not exist before a mode switch assigns them.
\<close>

datatype tensor = Tensor4 "rat array4" | Tensor5 "rat array4 list"


record dataset =
  full_data :: "rat array4"
  min_max_diff :: rat
  X_closeness :: "rat array4"
  X_period :: "rat array4"
  X_trend :: "rat array4"
  T_data :: "rat array4"
  P_data :: "rat array4"
  Y_data :: tensor
  X_data :: "tensor option"
  lead_time_data :: "rat array4 option"
  lead_time :: "int option"
  use_lead_time :: bool
  sequential :: bool
  periodical :: bool

definition tensor_len :: "tensor \<Rightarrow> nat" where
  "tensor_len t = (case t of Tensor4 a \<Rightarrow> length (a_rows a) | Tensor5 xs \<Rightarrow> length xs)"

text \<open>
  \<^verbatim>\<open>__init__\<close>, after the two files are loaded: \<open>flow_data\<close> and \<open>poi_data\<close> are their
  contents.
\<close>

definition init ::
  "rat array4 \<Rightarrow> rat array3 \<Rightarrow> int \<Rightarrow> int \<Rightarrow> int \<Rightarrow> int \<Rightarrow> int \<Rightarrow> int \<Rightarrow> bool \<Rightarrow> error + dataset" where
  "init flow_data poi_data len_closeness len_period len_trend T_closeness T_period T_trend normalize' =
     (case np_max (flat4 flow_data) of
        Inl e \<Rightarrow> Inl e
      | Inr max_data \<Rightarrow>
     (case np_min (flat4 flow_data) of
        Inl e \<Rightarrow> Inl e
      | Inr min_data \<Rightarrow>
     (let full = (if normalize'
                  then map4 (\<lambda>x. (2 * x - (max_data + min_data)) / (max_data - min_data)) flow_data
                  else flow_data)
      in case create_feature_vector full poi_data len_closeness len_period len_trend
                T_closeness T_period T_trend of
           Inl e \<Rightarrow> Inl e
         | Inr fv \<Rightarrow>
             Inr \<lparr>full_data = full, min_max_diff = max_data - min_data,
                  X_closeness = f_X_closeness fv, X_period = f_X_period fv, X_trend = f_X_trend fv,
                  T_data = f_T_data fv, P_data = f_P_data fv, Y_data = Tensor4 (f_Y_data fv),
                  X_data = None, lead_time_data = None, lead_time = None,
                  use_lead_time = False, sequential = False, periodical = True\<rparr>)))"

definition get_min_max_difference :: "dataset \<Rightarrow> rat" where
  "get_min_max_difference ds = min_max_diff ds"

text \<open>
  \<^verbatim>\<open>np.stack\<close> raises \<^verbatim>\<open>ValueError\<close> on an empty list and on arrays of different shapes.
\<close>

definition np_stack :: "rat array4 list \<Rightarrow> error + tensor" where
  "np_stack xs =
     (case xs of
        [] \<Rightarrow> Inl ValueError
      | x # ys \<Rightarrow> if list_all (\<lambda>y. shape4 y = shape4 x) ys then Inr (Tensor5 xs) else Inl ValueError)"

definition set_sequential_representation :: "dataset \<Rightarrow> int \<Rightarrow> int \<Rightarrow> error + dataset" where
  "set_sequential_representation ds history_length prediction_length =
     (let total_length = int (length (a_rows (full_data ds)));
          ends = [history_length + prediction_length .. total_length - 1];
          predict_data = map (\<lambda>end_idx. slice4 (end_idx - prediction_length) end_idx (full_data ds)) ends;
          history_data = map (\<lambda>end_idx. slice4 (end_idx - prediction_length - history_length)
                                            (end_idx - prediction_length) (full_data ds)) ends
      in case np_stack history_data of
           Inl e \<Rightarrow> Inl e
         | Inr h \<Rightarrow>
             (case np_stack predict_data of
                Inl e \<Rightarrow> Inl e
              | Inr p \<Rightarrow>
                  Inr (ds\<lparr>X_data := Some h, Y_data := p,
                          use_lead_time := False, sequential := True, periodical := False\<rparr>)))"

definition merge_closeness_period_trend :: "dataset \<Rightarrow> int \<Rightarrow> dataset" where
  "merge_closeness_period_trend ds lead_time' =
     ds\<lparr>lead_time_data := Some (full_data ds), lead_time := Some lead_time',
        use_lead_time := True, sequential := False, periodical := False\<rparr>"

text \<open>\<^verbatim>\<open>__len__\<close>: the value the method returns.\<close>

definition len :: "dataset \<Rightarrow> error + int" where
  "len ds =
     (if use_lead_time ds
      then (case read_attr (lead_time_data ds) of
              Inl e \<Rightarrow> Inl e
            | Inr d \<Rightarrow>
                (case read_attr (lead_time ds) of
                   Inl e \<Rightarrow> Inl e
                 | Inr l \<Rightarrow> Inr (int (length (a_rows d)) - l)))
      else Inr (int (tensor_len (Y_data ds))))"





section \<open>Notions of the specification\<close>

text \<open>
  The lag span of a scale is \<open>T * len\<close>; the specification speaks of the largest span among
  the enabled scales (those with a positive length).
\<close>

definition enabled_spans :: "int \<Rightarrow> int \<Rightarrow> int \<Rightarrow> int \<Rightarrow> int \<Rightarrow> int \<Rightarrow> int list" where
  "enabled_spans len_closeness len_period len_trend T_closeness T_period T_trend =
     (if len_closeness > 0 then [T_closeness * len_closeness] else []) @
     (if len_period > 0 then [T_period * len_period] else []) @
     (if len_trend > 0 then [T_trend * len_trend] else [])"

definition max_lag_span :: "int \<Rightarrow> int \<Rightarrow> int \<Rightarrow> int \<Rightarrow> int \<Rightarrow> int \<Rightarrow> int" where
  "max_lag_span len_closeness len_period len_trend T_closeness T_period T_trend =
     Max (set (enabled_spans len_closeness len_period len_trend T_closeness T_period T_trend))"

text \<open>The sum of all cells of one frame (\<^verbatim>\<open>np.sum\<close> of a \<open>(C, H, W)\<close> mask).\<close>

definition frame_sum :: "rat frame \<Rightarrow> rat" where
  "frame_sum f = sum_list (concat (concat f))"

text \<open>
  The window the specification describes for one sample \<open>j\<close>: the frames
  \<open>raw[skip + j - T*k]\<close> for \<open>k = 1..L\<close>, chained along the channel axis.
\<close>

definition lagged_frames :: "'a array4 \<Rightarrow> int \<Rightarrow> int \<Rightarrow> int \<Rightarrow> nat \<Rightarrow> 'a frame" where
  "lagged_frames raw skip T L j =
     concat (map (\<lambda>k. a_rows raw ! nat (skip + int j - T * k)) [1..L])"

text \<open>The inverse of the normalisation, as the specification writes it.\<close>

definition denormalize :: "rat \<Rightarrow> rat \<Rightarrow> rat \<Rightarrow> rat" where
  "denormalize max_data min_data y = (y * (max_data - min_data) + (max_data + min_data)) / 2"

text \<open>Small inputs on which the statements below are evaluated.\<close>

definition ramp :: "nat \<Rightarrow> rat array4" where
  "ramp n = \<lparr>a_chan = 1, a_height = 1, a_width = 1,
             a_rows = map (\<lambda>i. [[[of_nat i]]]) [0..<n]\<rparr>"

definition unit_poi :: "rat array3" where
  "unit_poi = \<lparr>b_height = 1, b_width = 1, b_rows = [[[2]]]\<rparr>"

text \<open>The dataset built from three frames, every window of length one and every step one.\<close>

definition demo_ds :: dataset where
  "demo_ds = projr (init (ramp 3) unit_poi 1 1 1 1 1 1 False)"

section \<open>Slices and lag windows\<close>

lemma slice_bound_in: "0 \<le> i \<Longrightarrow> i \<le> int n \<Longrightarrow> slice_bound n i = nat i"
  by (simp add: slice_bound_def)

lemma slice_rows_inner:
  assumes "0 \<le> a" "a \<le> b" "b \<le> int (length xs)"
  shows "slice_rows a b xs = take (nat (b - a)) (drop (nat a) xs)"
  using assms by (simp add: slice_rows_def Let_def slice_bound_in nat_diff_distrib)

lemma take_drop_map_nth:
  "s + m \<le> length xs \<Longrightarrow> take m (drop s xs) = map (\<lambda>j. xs ! (s + j)) [0..<m]"
  by (rule nth_equalityI) auto

lemma slice_rows_empty:
  assumes "2 * int (length xs) \<le> skip"
  shows "slice_rows (skip - d) (int (length xs) - d) xs = []"
  using assms by (auto simp add: slice_rows_def Let_def slice_bound_def)

lemma lag_slice_fields [simp]:
  "a_chan (lag_slice raw skip T k) = a_chan raw"
  "a_height (lag_slice raw skip T k) = a_height raw"
  "a_width (lag_slice raw skip T k) = a_width raw"
  by (simp_all add: lag_slice_def slice4_def)

lemma lag_slice_rows:
  assumes "0 \<le> T * k" "T * k \<le> skip" "skip \<le> int (length (a_rows raw))"
  shows "a_rows (lag_slice raw skip T k) =
           map (\<lambda>j. a_rows raw ! nat (skip + int j - T * k)) [0..<length (a_rows raw) - nat skip]"
proof -
  let ?n = "length (a_rows raw)"
  have "slice_rows (skip - T * k) (int ?n - T * k) (a_rows raw) =
          take (nat (int ?n - T * k - (skip - T * k))) (drop (nat (skip - T * k)) (a_rows raw))"
    using assms by (intro slice_rows_inner) auto
  also have "nat (int ?n - T * k - (skip - T * k)) = ?n - nat skip"
    using assms by auto
  also have "take (?n - nat skip) (drop (nat (skip - T * k)) (a_rows raw)) =
               map (\<lambda>j. a_rows raw ! (nat (skip - T * k) + j)) [0..<?n - nat skip]"
    using assms by (intro take_drop_map_nth) auto
  also have "\<dots> = map (\<lambda>j. a_rows raw ! nat (skip + int j - T * k)) [0..<?n - nat skip]"
  proof (rule map_cong[OF refl])
    fix j
    have "nat (skip - T * k) + j = nat (skip + int j - T * k)"
      using assms by auto
    then show "a_rows raw ! (nat (skip - T * k) + j) = a_rows raw ! nat (skip + int j - T * k)"
      by simp
  qed
  finally show ?thesis
    by (simp add: lag_slice_def slice4_def)
qed

lemma lagged_frames_snoc:
  "0 \<le> L \<Longrightarrow> lagged_frames raw skip T (L + 1) j =
     lagged_frames raw skip T L j @ a_rows raw ! nat (skip + int j - T * (L + 1))"
proof -
  assume "0 \<le> L"
  then have "[1..L + 1] = [1..L] @ [L + 1]"
    using upto_rec2[of 1 "L + 1"] by simp
  then show ?thesis
    by (simp add: lagged_frames_def)
qed

lemma concat_lags_window:
  assumes T: "0 \<le> T" and span: "T * (int b + 1) \<le> skip"
    and skip: "skip \<le> int (length (a_rows raw))"
  shows "a \<le> b \<Longrightarrow>
     a_rows X = map (lagged_frames raw skip T (int a + 1)) [0..<length (a_rows raw) - nat skip] \<Longrightarrow>
     a_height X = a_height raw \<Longrightarrow> a_width X = a_width raw \<Longrightarrow>
     a_chan X = (a + 1) * a_chan raw \<Longrightarrow>
     \<exists>X'. concat_lags raw skip T [a..<b] X = Inr X' \<and>
          a_rows X' = map (lagged_frames raw skip T (int b + 1)) [0..<length (a_rows raw) - nat skip] \<and>
          a_height X' = a_height raw \<and> a_width X' = a_width raw \<and>
          a_chan X' = (b + 1) * a_chan raw"
proof (induction "b - a" arbitrary: a X)
  case 0
  then have "a = b" by simp
  with 0 show ?case by simp
next
  case (Suc d)
  then have lt: "a < b" by simp
  let ?m = "length (a_rows raw) - nat skip"
  let ?k = "2 + int a"
  have k1: "0 \<le> T * ?k" using T by simp
  have "T * ?k \<le> T * (int b + 1)"
    using T lt by (intro mult_left_mono) auto
  then have k2: "T * ?k \<le> skip" using span by simp
  have rows_s: "a_rows (lag_slice raw skip T ?k) =
      map (\<lambda>j. a_rows raw ! nat (skip + int j - T * ?k)) [0..<?m]"
    by (rule lag_slice_rows[OF k1 k2 skip])
  define X1 :: "'a array4" where "X1 = \<lparr>a_chan = a_chan X + a_chan raw, a_height = a_height raw,
      a_width = a_width raw, a_rows = map2 (@) (a_rows X) (a_rows (lag_slice raw skip T ?k))\<rparr>"
  have c1: "concatenate1 X (lag_slice raw skip T ?k) = Inr X1"
    using Suc.prems rows_s by (simp add: concatenate1_def X1_def)
  have "a_rows X1 = map (\<lambda>j. lagged_frames raw skip T (int a + 1) j @
                              a_rows raw ! nat (skip + int j - T * ?k)) [0..<?m]"
    using Suc.prems rows_s by (simp add: X1_def map2_map_map)
  also have "\<dots> = map (lagged_frames raw skip T (int (Suc a) + 1)) [0..<?m]"
  proof (rule map_cong[OF refl])
    fix j
    show "lagged_frames raw skip T (int a + 1) j @ a_rows raw ! nat (skip + int j - T * ?k) =
          lagged_frames raw skip T (int (Suc a) + 1) j"
      using lagged_frames_snoc[of "int a + 1" raw skip T j] by (simp add: add.commute)
  qed
  finally have r1: "a_rows X1 = map (lagged_frames raw skip T (int (Suc a) + 1)) [0..<?m]" .
  have f1: "a_height X1 = a_height raw" "a_width X1 = a_width raw"
    "a_chan X1 = (Suc a + 1) * a_chan raw"
    using Suc.prems by (simp_all add: X1_def)
  have "Suc a \<le> b" "d = b - Suc a" using lt Suc.hyps by auto
  from Suc.hyps(1)[OF this(2) this(1) r1 f1]
  obtain X' where "concat_lags raw skip T [Suc a..<b] X1 = Inr X'"
     "a_rows X' = map (lagged_frames raw skip T (int b + 1)) [0..<?m]"
     "a_height X' = a_height raw" "a_width X' = a_width raw" "a_chan X' = (b + 1) * a_chan raw"
    by blast
  then show ?case
    using lt c1 by (simp add: upt_conv_Cons)
qed

lemma lag_window_rows:
  assumes "0 < L" "0 \<le> T" "T * L \<le> skip" "skip \<le> int (length (a_rows raw))"
  shows "\<exists>X. lag_window raw skip T L = Inr X \<and>
          a_rows X = map (lagged_frames raw skip T L) [0..<length (a_rows raw) - nat skip] \<and>
          a_height X = a_height raw \<and> a_width X = a_width raw \<and>
          a_chan X = nat L * a_chan raw"
proof -
  let ?b = "nat (L - 1)"
  have b: "int ?b + 1 = L" using assms by simp
  have "T * 1 \<le> T * L" using assms by (intro mult_left_mono) auto
  then have s1: "T * 1 \<le> skip" using assms by simp
  have rows1: "a_rows (lag_slice raw skip T 1) =
      map (lagged_frames raw skip T (int 0 + 1)) [0..<length (a_rows raw) - nat skip]"
    using lag_slice_rows[of T 1 skip raw] s1 assms by (simp add: lagged_frames_def)
  have span: "T * (int ?b + 1) \<le> skip" using assms b by simp
  have ch: "a_chan (lag_slice raw skip T 1) = (0 + 1) * a_chan raw" by simp
  have bL: "?b + 1 = nat L" using assms by auto
  from concat_lags_window[OF assms(2) span assms(4) le0 rows1 _ _ ch]
  obtain X where X: "concat_lags raw skip T [0..<?b] (lag_slice raw skip T 1) = Inr X"
    "a_rows X = map (lagged_frames raw skip T (int ?b + 1)) [0..<length (a_rows raw) - nat skip]"
    "a_height X = a_height raw" "a_width X = a_width raw" "a_chan X = (?b + 1) * a_chan raw"
    by auto
  have "lag_window raw skip T L = Inr X"
    unfolding lag_window_def by (rule X(1))
  moreover have "a_rows X = map (lagged_frames raw skip T L) [0..<length (a_rows raw) - nat skip]"
    using X(2) unfolding b .
  moreover have "a_chan X = nat L * a_chan raw"
    using X(5) unfolding bL .
  ultimately show ?thesis using X(3,4) by blast
qed

lemma concat_lags_empty:
  assumes "2 * int (length (a_rows raw)) \<le> skip"
  shows "a_rows X = [] \<Longrightarrow> a_height X = a_height raw \<Longrightarrow> a_width X = a_width raw \<Longrightarrow>
     \<exists>X'. concat_lags raw skip T is X = Inr X' \<and> a_rows X' = [] \<and>
          a_height X' = a_height raw \<and> a_width X' = a_width raw"
proof (induction "is" arbitrary: X)
  case Nil
  then show ?case by simp
next
  case (Cons i rest)
  have e: "a_rows (lag_slice raw skip T (2 + int i)) = []"
    using slice_rows_empty[OF assms] by (simp add: lag_slice_def slice4_def)
  define X1 :: "'a array4" where "X1 = \<lparr>a_chan = a_chan X + a_chan raw, a_height = a_height raw,
      a_width = a_width raw, a_rows = []\<rparr>"
  have "concatenate1 X (lag_slice raw skip T (2 + int i)) = Inr X1"
    using Cons.prems e by (simp add: concatenate1_def X1_def)
  moreover have "\<exists>X'. concat_lags raw skip T rest X1 = Inr X' \<and> a_rows X' = [] \<and>
          a_height X' = a_height raw \<and> a_width X' = a_width raw"
    by (rule Cons.IH) (simp_all add: X1_def)
  ultimately show ?case by simp
qed

lemma lag_window_empty:
  assumes "2 * int (length (a_rows raw)) \<le> skip"
  shows "\<exists>X. lag_window raw skip T L = Inr X \<and> a_rows X = [] \<and>
          a_height X = a_height raw \<and> a_width X = a_width raw"
  unfolding lag_window_def
  by (rule concat_lags_empty[OF assms])
     (use slice_rows_empty[OF assms] in \<open>simp_all add: lag_slice_def slice4_def\<close>)

section \<open>The one-hot loops\<close>

lemma set_channel_fields:
  "set_channel m i c = Inr m' \<Longrightarrow>
     a_chan m' = a_chan m \<and> a_height m' = a_height m \<and> a_width m' = a_width m \<and>
     length (a_rows m') = length (a_rows m)"
  by (auto simp add: set_channel_def split: if_splits)

lemma set_channel_error: "set_channel m i c = Inl e \<Longrightarrow> e = IndexError"
  by (auto simp add: set_channel_def split: if_splits)

lemma fill_onehot_error: "fill_onehot idx is m = Inl e \<Longrightarrow> e = IndexError"
  by (induction "is" arbitrary: m) (auto split: sum.splits dest: set_channel_error)

lemma fill_onehot_fields:
  "fill_onehot idx is m = Inr m' \<Longrightarrow>
     a_chan m' = a_chan m \<and> a_height m' = a_height m \<and> a_width m' = a_width m \<and>
     length (a_rows m') = length (a_rows m)"
proof (induction "is" arbitrary: m)
  case Nil
  then show ?case by simp
next
  case (Cons i rest)
  then obtain m1 where m1: "set_channel m i (idx i) = Inr m1" "fill_onehot idx rest m1 = Inr m'"
    by (auto split: sum.splits)
  from Cons.IH[OF m1(2)] set_channel_fields[OF m1(1)] show ?case by simp
qed

lemma fill_onehot_bad:
  "i \<in> set is \<Longrightarrow> \<not> index_ok (a_chan m) (idx i) \<Longrightarrow> fill_onehot idx is m = Inl IndexError"
proof (induction "is" arbitrary: m)
  case Nil
  then show ?case by simp
next
  case (Cons k rest)
  show ?case
  proof (cases "set_channel m k (idx k)")
    case (Inl e)
    then show ?thesis by (simp add: set_channel_error[OF Inl])
  next
    case (Inr m1)
    then have "k \<noteq> i" using Cons.prems(2) by (auto simp add: set_channel_def split: if_splits)
    then have "i \<in> set rest" using Cons.prems(1) by simp
    moreover have "\<not> index_ok (a_chan m1) (idx i)"
      using Cons.prems(2) set_channel_fields[OF Inr] by simp
    ultimately show ?thesis using Cons.IH Inr by simp
  qed
qed

lemma fill_onehot_ok:
  "\<forall>i\<in>set is. i < length (a_rows m) \<and> index_ok (a_chan m) (idx i) \<Longrightarrow>
     \<exists>m'. fill_onehot idx is m = Inr m'"
proof (induction "is" arbitrary: m)
  case Nil
  then show ?case by simp
next
  case (Cons k rest)
  then obtain m1 where m1: "set_channel m k (idx k) = Inr m1"
    by (auto simp add: set_channel_def)
  have "\<forall>i\<in>set rest. i < length (a_rows m1) \<and> index_ok (a_chan m1) (idx i)"
    using Cons.prems set_channel_fields[OF m1] by simp
  from Cons.IH[OF this] m1 show ?case by simp
qed

lemma fill_onehot_row:
  "fill_onehot idx is m = Inr m' \<Longrightarrow> distinct is \<Longrightarrow> i < length (a_rows m) \<Longrightarrow>
     a_rows m' ! i =
       (if i \<in> set is
        then (a_rows m ! i)[nat (wrap_index (a_chan m) (idx i)) :=
               replicate (a_height m) (replicate (a_width m) 1)]
        else a_rows m ! i)"
proof (induction "is" arbitrary: m)
  case Nil
  then show ?case by simp
next
  case (Cons k rest)
  then obtain m1 where m1: "set_channel m k (idx k) = Inr m1" "fill_onehot idx rest m1 = Inr m'"
    by (auto split: sum.splits)
  note f = set_channel_fields[OF m1(1)]
  have d: "distinct rest" "k \<notin> set rest" using Cons.prems(2) by auto
  have i1: "i < length (a_rows m1)" using Cons.prems(3) f by simp
  have rows1: "a_rows m1 = (a_rows m)[k := (a_rows m ! k)[nat (wrap_index (a_chan m) (idx k)) :=
               replicate (a_height m) (replicate (a_width m) 1)]]"
    using m1(1) by (auto simp add: set_channel_def split: if_splits)
  from Cons.IH[OF m1(2) d(1) i1]
  have "a_rows m' ! i =
       (if i \<in> set rest
        then (a_rows m1 ! i)[nat (wrap_index (a_chan m) (idx i)) :=
               replicate (a_height m) (replicate (a_width m) 1)]
        else a_rows m1 ! i)"
    using f by simp
  then show ?case
    using d(2) Cons.prems(3) by (cases "i = k") (auto simp add: rows1)
qed

lemma index_ok_iff: "index_ok sz c \<longleftrightarrow> - int sz \<le> c \<and> c < int sz"
  by (auto simp add: index_ok_def wrap_index_def)

lemma sum_concat_replicate:
  "sum_list (concat (replicate h (replicate w (x::rat)))) = of_nat (h * w) * x"
  by (induction h) (simp_all add: sum_list_replicate algebra_simps)

lemma frame_sum_onehot:
  assumes "j < c"
  shows "frame_sum ((replicate c (replicate h (replicate w 0)))[j := replicate h (replicate w 1)])
           = of_nat (h * w)"
proof -
  have "(replicate c (replicate h (replicate w (0::rat))))[j := replicate h (replicate w 1)] =
        replicate j (replicate h (replicate w 0)) @ replicate h (replicate w 1) #
        replicate (c - Suc j) (replicate h (replicate w 0))"
    using assms by (simp add: upd_conv_take_nth_drop)
  moreover have "sum_list (concat (concat (replicate k (replicate h (replicate w (0::rat)))))) = 0" for k
    by (induction k) (simp_all add: sum_concat_replicate)
  ultimately show ?thesis
    by (simp add: frame_sum_def sum_concat_replicate)
qed

section \<open>The temporal encoder: when it is built, and what it holds\<close>

lemma np_zeros_fields [simp]:
  "a_chan (np_zeros n c h w) = c" "a_height (np_zeros n c h w) = h"
  "a_width (np_zeros n c h w) = w" "length (a_rows (np_zeros n c h w)) = n"
  "i < n \<Longrightarrow> a_rows (np_zeros n c h w) ! i = replicate c (replicate h (replicate w 0))"
  by (simp_all add: np_zeros_def)

lemma onehot_built:
  assumes "fill_onehot idx [0..<n] (np_zeros n c h w) = Inr m" "i < n"
  shows "index_ok c (idx i)"
    and "a_rows m ! i = (replicate c (replicate h (replicate w 0)))
                          [nat (wrap_index c (idx i)) := replicate h (replicate w 1)]"
    and "length (a_rows m) = n" and "a_chan m = c" and "a_height m = h" and "a_width m = w"
proof -
  show "index_ok c (idx i)"
  proof (rule ccontr)
    assume "\<not> index_ok c (idx i)"
    then have "fill_onehot idx [0..<n] (np_zeros n c h w) = Inl IndexError"
      using assms(2) by (intro fill_onehot_bad[of i]) simp_all
    with assms(1) show False by simp
  qed
  show "a_rows m ! i = (replicate c (replicate h (replicate w 0)))
                          [nat (wrap_index c (idx i)) := replicate h (replicate w 1)]"
    using fill_onehot_row[OF assms(1), of i] assms(2) by simp
  show "length (a_rows m) = n" "a_chan m = c" "a_height m = h" "a_width m = w"
    using fill_onehot_fields[OF assms(1)] by simp_all
qed

lemma onehot_exists:
  assumes "\<forall>i<n. index_ok c (idx i)"
  shows "\<exists>m. fill_onehot idx [0..<n] (np_zeros n c h w) = Inr m"
  using assms by (intro fill_onehot_ok) simp

lemma time_day_range: "0 \<le> time_day Tp i \<and> time_day Tp i < 7"
  by (simp add: time_day_def np_mod_def)

lemma time_hour_range: "0 \<le> Tp \<Longrightarrow> Tp \<le> 24 \<Longrightarrow> 0 \<le> time_hour Tp i \<and> time_hour Tp i < 24"
proof -
  assume a: "0 \<le> Tp" "Tp \<le> 24"
  show ?thesis
  proof (cases "Tp = 0")
    case True
    then show ?thesis by (simp add: time_hour_def np_mod_def)
  next
    case False
    then have "0 < Tp" using a by simp
    then have "0 \<le> int i mod Tp" "int i mod Tp < Tp" by simp_all
    then have "0 \<le> int i mod Tp \<and> int i mod Tp < 24" using a by linarith
    then show ?thesis using False by (simp add: time_hour_def np_mod_def)
  qed
qed

lemma matrix_day_ok: "\<exists>md. matrix_day n Tp h w = Inr md"
  unfolding matrix_day_def
proof (rule onehot_exists, intro allI impI)
  fix i
  have "0 \<le> time_day Tp i \<and> time_day Tp i < 7" by (rule time_day_range)
  then show "index_ok 7 (time_day Tp i)"
    unfolding index_ok_iff by linarith
qed

lemma matrix_hour_ok:
  assumes "0 \<le> Tp" "Tp \<le> 24"
  shows "\<exists>mh. matrix_hour n Tp h w = Inr mh"
  unfolding matrix_hour_def
proof (rule onehot_exists, intro allI impI)
  fix i
  show "index_ok 24 (time_hour Tp i)"
    using time_hour_range[OF assms, of i] unfolding index_ok_iff by linarith
qed

lemma matrix_hour_fail:
  assumes "24 < Tp" "24 < n"
  shows "matrix_hour n Tp h w = Inl IndexError"
proof -
  have "time_hour Tp 24 = 24"
    using assms(1) by (simp add: time_hour_def np_mod_def)
  then have "\<not> index_ok 24 (time_hour Tp 24)"
    by (simp add: index_ok_iff)
  then show ?thesis
    unfolding matrix_hour_def using assms(2)
    by (intro fill_onehot_bad[of 24]) simp_all
qed

lemma matrix_T_ok:
  assumes "0 \<le> Tp" "Tp \<le> 24"
  shows "\<exists>mT. matrix_T n Tp h w = Inr mT \<and> length (a_rows mT) = n"
proof -
  obtain mh where mh: "matrix_hour n Tp h w = Inr mh"
    using matrix_hour_ok[OF assms] by blast
  obtain md where md: "matrix_day n Tp h w = Inr md"
    using matrix_day_ok by blast
  have "length (a_rows mh) = n" "a_height mh = h" "a_width mh = w"
    using fill_onehot_fields[OF mh[unfolded matrix_hour_def]] by simp_all
  moreover have "length (a_rows md) = n" "a_height md = h" "a_width md = w"
    using fill_onehot_fields[OF md[unfolded matrix_day_def]] by simp_all
  ultimately show ?thesis
    by (simp add: matrix_T_def mh md concatenate1_def)
qed

lemma matrix_T_rows:
  "matrix_T n Tp h w = Inr mT \<Longrightarrow> length (a_rows mT) = n"
proof -
  assume a: "matrix_T n Tp h w = Inr mT"
  then obtain mh md where mh: "matrix_hour n Tp h w = Inr mh" and md: "matrix_day n Tp h w = Inr md"
    and c: "concatenate1 mh md = Inr mT"
    by (auto simp add: matrix_T_def split: sum.splits)
  have "length (a_rows mh) = n"
    using fill_onehot_fields[OF mh[unfolded matrix_hour_def]] by simp
  moreover have "length (a_rows md) = n"
    using fill_onehot_fields[OF md[unfolded matrix_day_def]] by simp
  ultimately show ?thesis using c by (auto simp add: concatenate1_def split: if_splits)
qed

lemma onehot_cells:
  assumes "j < c" "k < c"
  shows "(replicate c (replicate h (replicate w (0::rat))))[j := replicate h (replicate w 1)] ! k
           = replicate h (replicate w (if k = j then 1 else 0))"
  using assms by (simp add: nth_list_update)

lemma time_hour_index_ok:
  assumes "- 25 \<le> Tp" "Tp \<le> 24"
  shows "index_ok 24 (time_hour Tp i)"
proof -
  consider "Tp = 0" | "0 < Tp" | "Tp < 0" by linarith
  then have "- 24 \<le> time_hour Tp i \<and> time_hour Tp i < 24"
  proof cases
    case 1
    then show ?thesis by (simp add: time_hour_def np_mod_def)
  next
    case 2
    then show ?thesis using time_hour_range[of Tp i] assms(2) by simp
  next
    case 3
    then have "int i mod Tp \<le> 0" "Tp < int i mod Tp" by simp_all
    then have "- 24 \<le> int i mod Tp \<and> int i mod Tp < 24" using assms(1) by linarith
    then show ?thesis using 3 by (simp add: time_hour_def np_mod_def)
  qed
  then show ?thesis unfolding index_ok_iff by simp
qed

lemma matrix_hour_ok_wrapped:
  assumes "- 25 \<le> Tp" "Tp \<le> 24"
  shows "\<exists>mh. matrix_hour n Tp h w = Inr mh"
  unfolding matrix_hour_def
  by (rule onehot_exists) (simp add: time_hour_index_ok[OF assms])

lemma matrix_T_built:
  assumes "matrix_T n Tp h w = Inr mT"
  shows "\<exists>mh md. matrix_hour n Tp h w = Inr mh \<and> matrix_day n Tp h w = Inr md \<and>
           a_rows mT = map2 (@) (a_rows mh) (a_rows md) \<and>
           length (a_rows mh) = n \<and> length (a_rows md) = n \<and> length (a_rows mT) = n \<and>
           a_chan mT = 31 \<and> a_height mT = h \<and> a_width mT = w"
proof -
  from assms obtain mh md where mh: "matrix_hour n Tp h w = Inr mh"
    and md: "matrix_day n Tp h w = Inr md" and c: "concatenate1 mh md = Inr mT"
    by (auto simp add: matrix_T_def split: sum.splits)
  note fh = fill_onehot_fields[OF mh[unfolded matrix_hour_def]]
  note fd = fill_onehot_fields[OF md[unfolded matrix_day_def]]
  have "a_rows mT = map2 (@) (a_rows mh) (a_rows md)" "a_chan mT = 31"
    "a_height mT = h" "a_width mT = w"
    using c fh fd by (auto simp add: concatenate1_def split: if_splits)
  moreover have "length (a_rows mh) = n" "length (a_rows md) = n"
    using fh fd by simp_all
  ultimately show ?thesis using mh md by simp
qed

lemma matrix_T_error:
  assumes "matrix_T n Tp h w = Inl e"
  shows "e = IndexError \<and> matrix_hour n Tp h w = Inl IndexError"
proof (cases "matrix_hour n Tp h w")
  case (Inl e')
  then have "e' = IndexError"
    unfolding matrix_hour_def by (rule fill_onehot_error)
  then show ?thesis using assms Inl by (simp add: matrix_T_def)
next
  case (Inr mh)
  obtain md where md: "matrix_day n Tp h w = Inr md"
    using matrix_day_ok by blast
  note fh = fill_onehot_fields[OF Inr[unfolded matrix_hour_def]]
  note fd = fill_onehot_fields[OF md[unfolded matrix_day_def]]
  have "\<exists>m. concatenate1 mh md = Inr m"
    using fh fd by (simp add: concatenate1_def)
  then show ?thesis using assms Inr md by (auto simp add: matrix_T_def)
qed

lemma matrix_T_ok_wrapped:
  assumes "- 25 \<le> Tp" "Tp \<le> 24"
  shows "\<exists>mT. matrix_T n Tp h w = Inr mT"
proof (cases "matrix_T n Tp h w")
  case (Inl e)
  from matrix_T_error[OF Inl] matrix_hour_ok_wrapped[OF assms, of n h w]
  show ?thesis by auto
next
  case (Inr mT)
  then show ?thesis by blast
qed

lemma matrix_T_row:
  assumes "matrix_T n Tp h w = Inr mT" "i < n"
  shows "\<exists>mh md. matrix_hour n Tp h w = Inr mh \<and> matrix_day n Tp h w = Inr md \<and>
           a_rows mT ! i = a_rows mh ! i @ a_rows md ! i"
proof -
  from matrix_T_built[OF assms(1)] obtain mh md where
    m: "matrix_hour n Tp h w = Inr mh" "matrix_day n Tp h w = Inr md"
    and r: "a_rows mT = map2 (@) (a_rows mh) (a_rows md)"
    and l: "length (a_rows mh) = n" "length (a_rows md) = n"
    by blast
  have "a_rows mT ! i = a_rows mh ! i @ a_rows md ! i"
    unfolding r using l assms(2) by simp
  then show ?thesis using m by blast
qed

section \<open>Construction, stage by stage\<close>

lemma scale_attr_Some:
  "scale_attr raw skip T L = Inr (Some X) \<longleftrightarrow> 0 < L \<and> lag_window raw skip T L = Inr X"
  by (auto simp add: scale_attr_def split: sum.splits)

lemma read_attr_Inr: "read_attr x = Inr v \<longleftrightarrow> x = Some v"
  by (cases x) (simp_all add: read_attr_def)

lemma create_feature_vector_built:
  assumes "create_feature_vector all_data poi len_closeness len_period len_trend
             T_closeness T_period T_trend = Inr fv"
  shows "\<exists>mT skip grids.
     matrix_T (length (a_rows all_data)) T_period (a_height all_data) (a_width all_data) = Inr mT \<and>
     number_of_skip_hours len_closeness len_period len_trend T_closeness T_period T_trend = Inr skip \<and>
     0 < len_closeness \<and> lag_window all_data skip T_closeness len_closeness = Inr (f_X_closeness fv) \<and>
     0 < len_period \<and> lag_window all_data skip T_period len_period = Inr (f_X_period fv) \<and>
     0 < len_trend \<and> lag_window all_data skip T_trend len_trend = Inr (f_X_trend fv) \<and>
     normalize_poi (b_rows poi) = Inr grids \<and>
     repeat_poi poi grids (a_height all_data) (a_width all_data)
        (length (a_rows (f_X_closeness fv))) = Inr (f_P_data fv) \<and>
     f_T_data fv = slice4_from skip mT \<and>
     f_Y_data fv = slice4 skip (int (length (a_rows all_data))) all_data"
proof -
  from assms obtain mT where mT:
    "matrix_T (length (a_rows all_data)) T_period (a_height all_data) (a_width all_data) = Inr mT"
    by (auto simp add: create_feature_vector_def Let_def split: sum.splits)
  from assms mT obtain skip where skip:
    "number_of_skip_hours len_closeness len_period len_trend T_closeness T_period T_trend = Inr skip"
    by (auto simp add: create_feature_vector_def Let_def split: sum.splits)
  from assms mT skip obtain Xc where Xc: "scale_attr all_data skip T_closeness len_closeness = Inr Xc"
    by (auto simp add: create_feature_vector_def Let_def split: sum.splits)
  from assms mT skip Xc obtain Xp where Xp: "scale_attr all_data skip T_period len_period = Inr Xp"
    by (auto simp add: create_feature_vector_def Let_def split: sum.splits)
  from assms mT skip Xc Xp obtain Xt where Xt: "scale_attr all_data skip T_trend len_trend = Inr Xt"
    by (auto simp add: create_feature_vector_def Let_def split: sum.splits)
  from assms mT skip Xc Xp Xt obtain Xc' where Xc': "read_attr Xc = Inr Xc'"
    by (auto simp add: create_feature_vector_def Let_def split: sum.splits)
  from assms mT skip Xc Xp Xt Xc' obtain grids where g: "normalize_poi (b_rows poi) = Inr grids"
    by (auto simp add: create_feature_vector_def Let_def split: sum.splits)
  from assms mT skip Xc Xp Xt Xc' g obtain P where P:
    "repeat_poi poi grids (a_height all_data) (a_width all_data) (length (a_rows Xc')) = Inr P"
    by (auto simp add: create_feature_vector_def Let_def split: sum.splits)
  from assms mT skip Xc Xp Xt Xc' g P obtain Xp' where Xp': "read_attr Xp = Inr Xp'"
    by (auto simp add: create_feature_vector_def Let_def split: sum.splits)
  from assms mT skip Xc Xp Xt Xc' g P Xp' obtain Xt' where Xt': "read_attr Xt = Inr Xt'"
    by (auto simp add: create_feature_vector_def Let_def split: sum.splits)
  from assms mT skip Xc Xp Xt Xc' g P Xp' Xt'
  have fv: "fv = \<lparr>f_X_closeness = Xc', f_X_period = Xp', f_X_trend = Xt',
                  f_T_data = slice4_from skip mT, f_P_data = P,
                  f_Y_data = slice4 skip (int (length (a_rows all_data))) all_data\<rparr>"
    by (simp add: create_feature_vector_def Let_def)
  have "Xc = Some Xc'" "Xp = Some Xp'" "Xt = Some Xt'"
    using Xc' Xp' Xt' by (simp_all add: read_attr_Inr)
  then have "0 < len_closeness \<and> lag_window all_data skip T_closeness len_closeness = Inr Xc'"
    "0 < len_period \<and> lag_window all_data skip T_period len_period = Inr Xp'"
    "0 < len_trend \<and> lag_window all_data skip T_trend len_trend = Inr Xt'"
    using Xc Xp Xt by (simp_all add: scale_attr_Some)
  then show ?thesis
    using mT skip g P fv by simp
qed

lemma create_feature_vector_intro:
  assumes "matrix_T (length (a_rows all_data)) T_period (a_height all_data) (a_width all_data) = Inr mT"
    and "number_of_skip_hours len_closeness len_period len_trend T_closeness T_period T_trend = Inr skip"
    and "0 < len_closeness" "lag_window all_data skip T_closeness len_closeness = Inr Xc"
    and "0 < len_period" "lag_window all_data skip T_period len_period = Inr Xp"
    and "0 < len_trend" "lag_window all_data skip T_trend len_trend = Inr Xt"
    and "normalize_poi (b_rows poi) = Inr grids"
    and "repeat_poi poi grids (a_height all_data) (a_width all_data) (length (a_rows Xc)) = Inr P"
  shows "create_feature_vector all_data poi len_closeness len_period len_trend
             T_closeness T_period T_trend =
         Inr \<lparr>f_X_closeness = Xc, f_X_period = Xp, f_X_trend = Xt,
              f_T_data = slice4_from skip mT, f_P_data = P,
              f_Y_data = slice4 skip (int (length (a_rows all_data))) all_data\<rparr>"
  using assms by (simp add: create_feature_vector_def Let_def scale_attr_def read_attr_def)

lemma create_feature_vector_mask_error:
  assumes "matrix_hour (length (a_rows all_data)) T_period (a_height all_data) (a_width all_data) = Inl e"
  shows "create_feature_vector all_data poi len_closeness len_period len_trend
             T_closeness T_period T_trend = Inl e"
  using assms by (simp add: create_feature_vector_def Let_def matrix_T_def)

lemma create_feature_vector_no_scale:
  assumes "len_trend \<le> 0" "len_period \<le> 0" "len_closeness \<le> 0"
  shows "\<exists>e. create_feature_vector all_data poi len_closeness len_period len_trend
             T_closeness T_period T_trend = Inl e"
    and "matrix_T (length (a_rows all_data)) T_period (a_height all_data) (a_width all_data) = Inr mT \<Longrightarrow>
         create_feature_vector all_data poi len_closeness len_period len_trend
             T_closeness T_period T_trend = Inl InvalidParametersException"
  using assms
  by (auto simp add: create_feature_vector_def Let_def number_of_skip_hours_def split: sum.splits)

lemma T_data_row:
  assumes "create_feature_vector all_data poi len_closeness len_period len_trend
             T_closeness T_period T_trend = Inr fv"
    and "matrix_T (length (a_rows all_data)) T_period (a_height all_data) (a_width all_data) = Inr mT"
    and "0 \<le> T_trend * len_trend"
    and "nat (T_trend * len_trend) + j < length (a_rows all_data)"
  shows "a_rows (f_T_data fv) ! j = a_rows mT ! (nat (T_trend * len_trend) + j)"
proof -
  from create_feature_vector_built[OF assms(1)] obtain mT' skip where
    mT': "matrix_T (length (a_rows all_data)) T_period (a_height all_data) (a_width all_data) = Inr mT'"
    and nsh: "number_of_skip_hours len_closeness len_period len_trend T_closeness T_period T_trend = Inr skip"
    and lt: "0 < len_trend" and T: "f_T_data fv = slice4_from skip mT'"
    by blast
  have e: "mT' = mT" using mT' assms(2) by simp
  have skip: "skip = T_trend * len_trend"
    using nsh lt by (simp add: number_of_skip_hours_def)
  have n: "length (a_rows mT) = length (a_rows all_data)"
    by (rule matrix_T_rows[OF assms(2)])
  have b: "slice_bound (length (a_rows mT)) (T_trend * len_trend) = nat (T_trend * len_trend)"
    using assms(3,4) n by (intro slice_bound_in) auto
  have "a_rows (slice4_from (T_trend * len_trend) mT) = drop (nat (T_trend * len_trend)) (a_rows mT)"
    by (simp add: slice4_from_def b)
  then show ?thesis
    unfolding T e skip using assms(4) n by simp
qed

section \<open>The skip offset (C1, C4)\<close>

text \<open>
  C1, as the specification states it, fails in its last part: the hour mask is built
  before the skip rule is reached. With no positive window length, \<open>T_period = 25\<close> and 26
  frames, timestep 24 has hour index 24 and construction raises \<^verbatim>\<open>IndexError\<close>, not
  \<^verbatim>\<open>InvalidParametersException\<close>.
\<close>

theorem invalid_configuration_counterexample:
  "number_of_skip_hours 0 0 0 1 25 168 = Inl InvalidParametersException \<and>
   create_feature_vector (ramp 26) unit_poi 0 0 0 1 25 168 = Inl IndexError \<and>
   init (ramp 26) unit_poi 0 0 0 1 25 168 True = Inl IndexError"
  by code_simp

text \<open>
  C1, amended. The skip offset follows a fixed priority: \<open>T_trend * len_trend\<close> when
  \<open>len_trend > 0\<close>, otherwise \<open>T_period * len_period\<close> when \<open>len_period > 0\<close>, otherwise
  \<open>T_closeness * len_closeness\<close> when \<open>len_closeness > 0\<close>; when construction succeeds, the
  target is the series from that offset on. When no window length is positive the rule
  raises \<^verbatim>\<open>InvalidParametersException\<close> and construction produces no arrays: it fails with
  that exception whenever the temporal masks, which are built before the rule, were built
  (in particular for every \<open>T_period\<close> from \<open>-25\<close> to 24), and with the \<^verbatim>\<open>IndexError\<close> of the
  hour mask otherwise.
\<close>

theorem skip_offset_priority_rule:
  "(0 < len_trend \<longrightarrow>
      number_of_skip_hours len_closeness len_period len_trend T_closeness T_period T_trend
        = Inr (T_trend * len_trend)) \<and>
   (len_trend \<le> 0 \<and> 0 < len_period \<longrightarrow>
      number_of_skip_hours len_closeness len_period len_trend T_closeness T_period T_trend
        = Inr (T_period * len_period)) \<and>
   (len_trend \<le> 0 \<and> len_period \<le> 0 \<and> 0 < len_closeness \<longrightarrow>
      number_of_skip_hours len_closeness len_period len_trend T_closeness T_period T_trend
        = Inr (T_closeness * len_closeness)) \<and>
   (len_trend \<le> 0 \<and> len_period \<le> 0 \<and> len_closeness \<le> 0 \<longrightarrow>
      number_of_skip_hours len_closeness len_period len_trend T_closeness T_period T_trend
        = Inl InvalidParametersException \<and>
      (create_feature_vector all_data poi len_closeness len_period len_trend
         T_closeness T_period T_trend = Inl InvalidParametersException \<or>
       create_feature_vector all_data poi len_closeness len_period len_trend
         T_closeness T_period T_trend = Inl IndexError) \<and>
      (\<forall>mT. matrix_T (length (a_rows all_data)) T_period (a_height all_data) (a_width all_data)
               = Inr mT \<longrightarrow>
            create_feature_vector all_data poi len_closeness len_period len_trend
              T_closeness T_period T_trend = Inl InvalidParametersException) \<and>
      (\<forall>e. matrix_T (length (a_rows all_data)) T_period (a_height all_data) (a_width all_data)
               = Inl e \<longrightarrow>
            matrix_hour (length (a_rows all_data)) T_period (a_height all_data) (a_width all_data)
               = Inl IndexError \<and>
            create_feature_vector all_data poi len_closeness len_period len_trend
              T_closeness T_period T_trend = Inl IndexError) \<and>
      (- 25 \<le> T_period \<and> T_period \<le> 24 \<longrightarrow>
            create_feature_vector all_data poi len_closeness len_period len_trend
              T_closeness T_period T_trend = Inl InvalidParametersException)) \<and>
   (\<forall>fv. create_feature_vector all_data poi len_closeness len_period len_trend
            T_closeness T_period T_trend = Inr fv \<longrightarrow>
      (\<exists>skip. number_of_skip_hours len_closeness len_period len_trend T_closeness T_period T_trend
                = Inr skip \<and>
              f_Y_data fv = slice4 skip (int (length (a_rows all_data))) all_data))"
proof -
  let ?cfv = "create_feature_vector all_data poi len_closeness len_period len_trend
                T_closeness T_period T_trend"
  let ?nsh = "number_of_skip_hours len_closeness len_period len_trend T_closeness T_period T_trend"
  let ?mT = "matrix_T (length (a_rows all_data)) T_period (a_height all_data) (a_width all_data)"
  have r1: "0 < len_trend \<longrightarrow> ?nsh = Inr (T_trend * len_trend)"
    and r2: "len_trend \<le> 0 \<and> 0 < len_period \<longrightarrow> ?nsh = Inr (T_period * len_period)"
    and r3: "len_trend \<le> 0 \<and> len_period \<le> 0 \<and> 0 < len_closeness \<longrightarrow>
               ?nsh = Inr (T_closeness * len_closeness)"
    by (simp_all add: number_of_skip_hours_def)
  have none: "?nsh = Inl InvalidParametersException \<and>
      (?cfv = Inl InvalidParametersException \<or> ?cfv = Inl IndexError) \<and>
      (\<forall>mT. ?mT = Inr mT \<longrightarrow> ?cfv = Inl InvalidParametersException) \<and>
      (\<forall>e. ?mT = Inl e \<longrightarrow>
          matrix_hour (length (a_rows all_data)) T_period (a_height all_data) (a_width all_data)
            = Inl IndexError \<and> ?cfv = Inl IndexError) \<and>
      (- 25 \<le> T_period \<and> T_period \<le> 24 \<longrightarrow> ?cfv = Inl InvalidParametersException)"
    if n: "len_trend \<le> 0 \<and> len_period \<le> 0 \<and> len_closeness \<le> 0"
  proof -
    have a: "?nsh = Inl InvalidParametersException"
      using n by (simp add: number_of_skip_hours_def)
    have b: "?cfv = Inl InvalidParametersException" if "?mT = Inr mT" for mT
      using create_feature_vector_no_scale(2)[OF _ _ _ that] n by blast
    have c: "matrix_hour (length (a_rows all_data)) T_period (a_height all_data) (a_width all_data)
            = Inl IndexError \<and> ?cfv = Inl IndexError" if "?mT = Inl e" for e
    proof -
      from matrix_T_error[OF that] have e: "e = IndexError"
        and h: "matrix_hour (length (a_rows all_data)) T_period (a_height all_data)
                  (a_width all_data) = Inl IndexError" by simp_all
      from create_feature_vector_mask_error[OF h] h show ?thesis by simp
    qed
    have d: "?cfv = Inl InvalidParametersException \<or> ?cfv = Inl IndexError"
      using b c by (cases ?mT) blast+
    have e: "?cfv = Inl InvalidParametersException" if "- 25 \<le> T_period \<and> T_period \<le> 24"
    proof -
      from that obtain mT where "?mT = Inr mT"
        using matrix_T_ok_wrapped[of T_period] by blast
      then show ?thesis by (rule b)
    qed
    from a b c d e show ?thesis by blast
  qed
  have ok: "\<exists>skip. ?nsh = Inr skip \<and>
              f_Y_data fv = slice4 skip (int (length (a_rows all_data))) all_data"
    if "?cfv = Inr fv" for fv
    using create_feature_vector_built[OF that] by blast
  from r1 r2 r3 none ok show ?thesis by blast
qed

theorem skip_offset_priority_rule_witness:
  "number_of_skip_hours 3 4 4 1 24 168 = Inr 672 \<and>
   number_of_skip_hours 3 4 0 1 24 168 = Inr 96 \<and>
   number_of_skip_hours 3 0 0 1 24 168 = Inr 3 \<and>
   create_feature_vector (ramp 3) unit_poi 0 0 0 1 24 168 = Inl InvalidParametersException"
proof -
  note r0 = skip_offset_priority_rule[where len_trend = 0 and len_period = 0 and len_closeness = 0
      and T_closeness = 1 and T_period = 24 and T_trend = 168 and all_data = "ramp 3"
      and poi = unit_poi]
  have "(0::int) \<le> 0 \<and> (0::int) \<le> 0 \<and> (0::int) \<le> 0" "- 25 \<le> (24::int) \<and> (24::int) \<le> 24"
    by simp_all
  with r0
  have 4: "create_feature_vector (ramp 3) unit_poi 0 0 0 1 24 168 = Inl InvalidParametersException"
    by blast
  have "(0::int) < 4" by simp
  with skip_offset_priority_rule[where len_trend = 4 and len_period = 4 and len_closeness = 3
      and T_closeness = 1 and T_period = 24 and T_trend = 168]
  have "number_of_skip_hours 3 4 4 1 24 168 = Inr (168 * 4)" by blast
  then have 1: "number_of_skip_hours 3 4 4 1 24 168 = Inr 672" by simp
  have "(0::int) \<le> 0 \<and> (0::int) < 4" by simp
  with skip_offset_priority_rule[where len_trend = 0 and len_period = 4 and len_closeness = 3
      and T_closeness = 1 and T_period = 24 and T_trend = 168]
  have "number_of_skip_hours 3 4 0 1 24 168 = Inr (24 * 4)" by blast
  then have 2: "number_of_skip_hours 3 4 0 1 24 168 = Inr 96" by simp
  have "(0::int) \<le> 0 \<and> (0::int) \<le> 0 \<and> (0::int) < 3" by simp
  with skip_offset_priority_rule[where len_trend = 0 and len_period = 0 and len_closeness = 3
      and T_closeness = 1 and T_period = 24 and T_trend = 168]
  have "number_of_skip_hours 3 0 0 1 24 168 = Inr (1 * 3)" by blast
  then have 3: "number_of_skip_hours 3 0 0 1 24 168 = Inr 3" by simp
  from 1 2 3 4 show ?thesis by blast
qed

text \<open>
  C4, as the specification states it, fails: with a short trend window (one lag of 168
  steps) and a longer period window (eight lags of 24 steps) the offset is 168, the largest
  span is 192.
\<close>

theorem skip_offset_max_span_counterexample:
  "number_of_skip_hours 3 8 1 1 24 168 = Inr 168 \<and>
   max_lag_span 3 8 1 1 24 168 = 192 \<and>
   number_of_skip_hours 3 8 1 1 24 168 \<noteq> Inr (max_lag_span 3 8 1 1 24 168)"
  by (simp add: number_of_skip_hours_def max_lag_span_def enabled_spans_def)

text \<open>
  C4, amended. Whenever at least one scale is enabled, the skip offset is the lag span of
  the enabled scale of highest priority (trend, then period, then closeness). It is the
  largest lag span over the enabled scales exactly when no other enabled scale has a larger
  span than that one.
\<close>

theorem skip_offset_is_priority_span:
  assumes "number_of_skip_hours len_closeness len_period len_trend T_closeness T_period T_trend
             = Inr skip"
  shows "skip = (if 0 < len_trend then T_trend * len_trend
                 else if 0 < len_period then T_period * len_period
                 else T_closeness * len_closeness) \<and>
         skip \<in> set (enabled_spans len_closeness len_period len_trend T_closeness T_period T_trend) \<and>
         (skip = max_lag_span len_closeness len_period len_trend T_closeness T_period T_trend
            \<longleftrightarrow> (\<forall>s \<in> set (enabled_spans len_closeness len_period len_trend
                                T_closeness T_period T_trend). s \<le> skip))"
proof -
  let ?S = "set (enabled_spans len_closeness len_period len_trend T_closeness T_period T_trend)"
  have v: "skip = (if 0 < len_trend then T_trend * len_trend
                 else if 0 < len_period then T_period * len_period
                 else T_closeness * len_closeness)"
    using assms by (auto simp add: number_of_skip_hours_def split: if_splits)
  have m: "skip \<in> ?S"
    using assms by (auto simp add: number_of_skip_hours_def enabled_spans_def split: if_splits)
  have "finite ?S" by simp
  have "(skip = Max ?S) \<longleftrightarrow> (\<forall>s\<in>?S. s \<le> skip)"
  proof
    assume "skip = Max ?S"
    then show "\<forall>s\<in>?S. s \<le> skip" by simp
  next
    assume "\<forall>s\<in>?S. s \<le> skip"
    then show "skip = Max ?S"
      using m by (intro Max_eqI[symmetric]) auto
  qed
  then show ?thesis
    using v m unfolding max_lag_span_def by blast
qed

theorem skip_offset_is_priority_span_witness:
  "(168::int) = max_lag_span 3 4 1 1 24 168 \<and> (96::int) \<noteq> max_lag_span 3 4 0 50 24 168"
proof -
  have a: "number_of_skip_hours 3 4 1 1 24 168 = Inr 168"
    by (simp add: number_of_skip_hours_def)
  have b: "number_of_skip_hours 3 4 0 50 24 168 = Inr 96"
    by (simp add: number_of_skip_hours_def)
  have Sa: "enabled_spans 3 4 1 1 24 168 = [3, 96, 168]"
    by (simp add: enabled_spans_def)
  have Sb: "enabled_spans 3 4 0 50 24 168 = [150, 96]"
    by (simp add: enabled_spans_def)
  from skip_offset_is_priority_span[OF a]
  have "168 = max_lag_span 3 4 1 1 24 168 \<longleftrightarrow> (\<forall>s \<in> set [3, 96, 168::int]. s \<le> 168)"
    unfolding Sa by blast
  then have 1: "168 = max_lag_span 3 4 1 1 24 168" by simp
  from skip_offset_is_priority_span[OF b]
  have "96 = max_lag_span 3 4 0 50 24 168 \<longleftrightarrow> (\<forall>s \<in> set [150, 96::int]. s \<le> 96)"
    unfolding Sb by blast
  then have 2: "96 \<noteq> max_lag_span 3 4 0 50 24 168" by simp
  from 1 2 show ?thesis by blast
qed

section \<open>The hour and day masks (C10)\<close>

lemma hour_day_masks_one_hot:
  assumes "matrix_hour len_total T_period H W = Inr mh"
    and "matrix_day len_total T_period H W = Inr md"
    and "i < len_total"
  shows "(0 < T_period \<longrightarrow>
            wrap_index 24 (time_hour T_period i) = int i mod T_period \<and>
            time_day T_period i = (int i div T_period) mod 7) \<and>
         length (a_rows mh ! i) = 24 \<and> length (a_rows md ! i) = 7 \<and>
         (\<forall>c<24. a_rows mh ! i ! c =
             replicate H (replicate W (if int c = wrap_index 24 (time_hour T_period i) then 1 else 0))) \<and>
         (\<forall>c<7. a_rows md ! i ! c =
             replicate H (replicate W (if int c = time_day T_period i then 1 else 0))) \<and>
         frame_sum (a_rows mh ! i) = of_nat (H * W) \<and>
         frame_sum (a_rows md ! i) = of_nat (H * W)"
proof -
  let ?h = "wrap_index 24 (time_hour T_period i)"
  let ?d = "time_day T_period i"
  note bh = onehot_built[OF assms(1)[unfolded matrix_hour_def] assms(3)]
  note bd = onehot_built[OF assms(2)[unfolded matrix_day_def] assms(3)]
  have h: "0 \<le> ?h" "?h < 24" using bh(1) by (simp_all add: index_ok_def)
  have d: "0 \<le> ?d" "?d < 7" using time_day_range[of T_period i] by simp_all
  have wd: "wrap_index 7 ?d = ?d" using d by (simp add: wrap_index_def)
  have jh: "nat ?h < 24" using h by simp
  have jd: "nat ?d < 7" using d by simp
  have rh: "a_rows mh ! i = (replicate 24 (replicate H (replicate W 0)))
                              [nat ?h := replicate H (replicate W 1)]"
    by (rule bh(2))
  have rd: "a_rows md ! i = (replicate 7 (replicate H (replicate W 0)))
                              [nat ?d := replicate H (replicate W 1)]"
    using bd(2) wd by simp
  have 1: "0 < T_period \<longrightarrow> ?h = int i mod T_period \<and> ?d = (int i div T_period) mod 7"
  proof
    assume p: "0 < T_period"
    then have "0 \<le> int i mod T_period" by simp
    then have "wrap_index 24 (int i mod T_period) = int i mod T_period"
      unfolding wrap_index_def by (simp only: not_less[symmetric] if_False)
    then show "?h = int i mod T_period \<and> ?d = (int i div T_period) mod 7"
      using p by (simp add: time_hour_def time_day_def np_mod_def np_floordiv_def)
  qed
  have 2: "length (a_rows mh ! i) = 24" "length (a_rows md ! i) = 7"
    by (simp_all add: rh rd)
  have 3: "\<forall>c<24. a_rows mh ! i ! c = replicate H (replicate W (if int c = ?h then 1 else 0))"
  proof (intro allI impI)
    fix c :: nat
    assume c: "c < 24"
    have "(c = nat ?h) = (int c = ?h)" using h by auto
    then show "a_rows mh ! i ! c = replicate H (replicate W (if int c = ?h then 1 else 0))"
      unfolding rh using onehot_cells[OF jh c, of H W] by simp
  qed
  have 4: "\<forall>c<7. a_rows md ! i ! c = replicate H (replicate W (if int c = ?d then 1 else 0))"
  proof (intro allI impI)
    fix c :: nat
    assume c: "c < 7"
    have "(c = nat ?d) = (int c = ?d)" using d by auto
    then show "a_rows md ! i ! c = replicate H (replicate W (if int c = ?d then 1 else 0))"
      unfolding rd using onehot_cells[OF jd c, of H W] by simp
  qed
  have 5: "frame_sum (a_rows mh ! i) = of_nat (H * W)"
    unfolding rh by (rule frame_sum_onehot[OF jh])
  have 6: "frame_sum (a_rows md ! i) = of_nat (H * W)"
    unfolding rd by (rule frame_sum_onehot[OF jd])
  from 1 2 3 4 5 6 show ?thesis by blast
qed

lemma np_max_flat: "xs \<noteq> [] \<Longrightarrow> np_max xs = Inr (Max (set xs))"
  by (cases xs) (simp_all add: np_max_def Max.set_eq_fold[symmetric])

lemma np_min_flat: "xs \<noteq> [] \<Longrightarrow> np_min xs = Inr (Min (set xs))"
  by (cases xs) (simp_all add: np_min_def Min.set_eq_fold[symmetric])

lemma map4_fields [simp]:
  "a_chan (map4 f a) = a_chan a" "a_height (map4 f a) = a_height a"
  "a_width (map4 f a) = a_width a" "length (a_rows (map4 f a)) = length (a_rows a)"
  by (simp_all add: map4_def)

lemma ramp_fields [simp]:
  "a_chan (ramp n) = 1" "a_height (ramp n) = 1" "a_width (ramp n) = 1"
  "length (a_rows (ramp n)) = n"
  by (simp_all add: ramp_def)

lemma init_mask_error:
  assumes "flat4 flow_data \<noteq> []"
    and "matrix_hour (length (a_rows flow_data)) T_period (a_height flow_data) (a_width flow_data) = Inl e"
  shows "init flow_data poi_data len_closeness len_period len_trend T_closeness T_period T_trend
           normalize' = Inl e"
proof -
  have "create_feature_vector
          (if normalize'
           then map4 (\<lambda>x. (2 * x - (Max (set (flat4 flow_data)) + Min (set (flat4 flow_data)))) /
                           (Max (set (flat4 flow_data)) - Min (set (flat4 flow_data)))) flow_data
           else flow_data)
          poi_data len_closeness len_period len_trend T_closeness T_period T_trend = Inl e"
    by (rule create_feature_vector_mask_error) (use assms(2) in simp)
  then show ?thesis
    using assms(1) by (simp add: init_def np_max_flat np_min_flat Let_def)
qed

text \<open>
  C10. For \<open>0 \<le> T_period \<le> 24\<close> the hour index of every timestep lies within the 24 mask
  channels (it is \<open>i mod T_period\<close> unless \<open>T_period = 0\<close>, where numpy yields 0) and the hour
  mask is built. For \<open>T_period > 24\<close> and \<open>len_total > 24\<close> timestep 24 has hour index 24, and
  the hour mask, \<^verbatim>\<open>_create_feature_vector\<close> and (on a series with at least one element)
  \<^verbatim>\<open>__init__\<close> fail with \<^verbatim>\<open>IndexError\<close>. (A negative period down to \<open>-25\<close> gives indices
  from \<open>-24\<close> to 0, which Python counts from the end: the mask is built there too.)
\<close>

theorem hour_encoding_precondition:
  "(0 \<le> T_period \<and> T_period \<le> 24 \<longrightarrow>
      (\<forall>i. 0 \<le> time_hour T_period i \<and> time_hour T_period i < 24 \<and>
           (T_period \<noteq> 0 \<longrightarrow> time_hour T_period i = int i mod T_period)) \<and>
      (\<exists>mh. matrix_hour (length (a_rows all_data)) T_period (a_height all_data) (a_width all_data)
               = Inr mh)) \<and>
   (- 25 \<le> T_period \<and> T_period \<le> 24 \<longrightarrow>
      (\<forall>i. index_ok 24 (time_hour T_period i)) \<and>
      (\<exists>mh. matrix_hour (length (a_rows all_data)) T_period (a_height all_data) (a_width all_data)
               = Inr mh)) \<and>
   (24 < T_period \<and> 24 < length (a_rows all_data) \<longrightarrow>
      time_hour T_period 24 = 24 \<and>
      matrix_hour (length (a_rows all_data)) T_period (a_height all_data) (a_width all_data)
        = Inl IndexError \<and>
      create_feature_vector all_data poi len_closeness len_period len_trend
        T_closeness T_period T_trend = Inl IndexError \<and>
      (flat4 all_data \<noteq> [] \<longrightarrow>
         init all_data poi len_closeness len_period len_trend T_closeness T_period T_trend normalize'
           = Inl IndexError))"
proof (intro conjI impI)
  assume a: "0 \<le> T_period \<and> T_period \<le> 24"
  show "\<forall>i. 0 \<le> time_hour T_period i \<and> time_hour T_period i < 24 \<and>
           (T_period \<noteq> 0 \<longrightarrow> time_hour T_period i = int i mod T_period)"
    using a time_hour_range[of T_period] by (simp add: time_hour_def np_mod_def)
  show "\<exists>mh. matrix_hour (length (a_rows all_data)) T_period (a_height all_data) (a_width all_data)
               = Inr mh"
    using a by (intro matrix_hour_ok) simp_all
next
  assume w: "- 25 \<le> T_period \<and> T_period \<le> 24"
  show "\<forall>i. index_ok 24 (time_hour T_period i)"
    using w by (simp add: time_hour_index_ok)
  show "\<exists>mh. matrix_hour (length (a_rows all_data)) T_period (a_height all_data) (a_width all_data)
               = Inr mh"
    using w by (intro matrix_hour_ok_wrapped) simp_all
next
  assume b: "24 < T_period \<and> 24 < length (a_rows all_data)"
  show "time_hour T_period 24 = 24"
    using b by (simp add: time_hour_def np_mod_def)
  show f: "matrix_hour (length (a_rows all_data)) T_period (a_height all_data) (a_width all_data)
        = Inl IndexError"
    using b by (intro matrix_hour_fail) simp_all
  show "create_feature_vector all_data poi len_closeness len_period len_trend
        T_closeness T_period T_trend = Inl IndexError"
    by (rule create_feature_vector_mask_error[OF f])
  assume "flat4 all_data \<noteq> []"
  then show "init all_data poi len_closeness len_period len_trend T_closeness T_period T_trend normalize'
           = Inl IndexError"
    by (rule init_mask_error[OF _ f])
qed

theorem hour_encoding_precondition_witness:
  "(\<exists>mh. matrix_hour 30 24 1 1 = Inr mh) \<and> time_hour 24 29 = 5 \<and>
   create_feature_vector (ramp 26) unit_poi 3 4 4 1 25 168 = Inl IndexError \<and>
   init (ramp 26) unit_poi 3 4 4 1 25 168 True = Inl IndexError"
proof -
  note a = hour_encoding_precondition[where T_period = 24 and all_data = "ramp 30"]
  note b = hour_encoding_precondition[where T_period = 25 and all_data = "ramp 26"
      and poi = unit_poi and len_closeness = 3 and len_period = 4 and len_trend = 4
      and T_closeness = 1 and T_trend = 168 and normalize' = True]
  have ha: "(0::int) \<le> 24 \<and> (24::int) \<le> 24" by simp
  have hb: "(24::int) < 25 \<and> 24 < length (a_rows (ramp 26))" by simp
  have ne: "flat4 (ramp 26) \<noteq> []" by (simp add: flat4_def ramp_def upt_rec)
  from a ha have a1: "\<exists>mh. matrix_hour (length (a_rows (ramp 30))) 24 (a_height (ramp 30))
      (a_width (ramp 30)) = Inr mh"
    and a2: "time_hour 24 29 = int 29 mod 24" by simp_all
  from b hb ne have b1: "create_feature_vector (ramp 26) unit_poi 3 4 4 1 25 168 = Inl IndexError"
    and b2: "init (ramp 26) unit_poi 3 4 4 1 25 168 True = Inl IndexError" by blast+
  from a1 a2 b1 b2 show ?thesis by simp
qed

section \<open>Alignment of the six arrays\<close>

lemma normalize_poi_ok:
  "\<forall>g\<in>set gs. concat g \<noteq> [] \<Longrightarrow> \<exists>gs'. normalize_poi gs = Inr gs'"
proof (induction gs)
  case Nil
  then show ?case by simp
next
  case (Cons g gs)
  then obtain gs' where "normalize_poi gs = Inr gs'" by auto
  moreover have "np_max (concat g) = Inr (Max (set (concat g)))"
    using Cons.prems by (intro np_max_flat) simp
  ultimately show ?case by simp
qed

lemma repeat_poi_rows:
  "repeat_poi poi grids h w n = Inr P \<Longrightarrow> length (a_rows P) = n"
  by (auto simp add: repeat_poi_def Let_def split: if_splits)

lemma repeat_poi_ok:
  "length (b_rows poi) * b_height poi * b_width poi = length (b_rows poi) * h * w \<Longrightarrow>
     \<exists>P. repeat_poi poi grids h w n = Inr P"
  by (simp add: repeat_poi_def Let_def)

lemma slice4_from_rows:
  "0 \<le> skip \<Longrightarrow> length (a_rows (slice4_from skip a)) = length (a_rows a) - nat skip"
  by (auto simp add: slice4_from_def slice_bound_def)

lemma slice4_to_end_rows:
  "0 \<le> skip \<Longrightarrow> length (a_rows (slice4 skip (int (length (a_rows a))) a)) = length (a_rows a) - nat skip"
  by (auto simp add: slice4_def slice_rows_def Let_def slice_bound_def)

lemma slice4_fields [simp]:
  "a_chan (slice4 s e a) = a_chan a" "a_height (slice4 s e a) = a_height a"
  "a_width (slice4 s e a) = a_width a"
  by (simp_all add: slice4_def)

lemma create_feature_vector_aligned:
  assumes lens: "0 < len_closeness" "0 < len_period" "0 < len_trend"
    and steps: "0 \<le> T_closeness" "0 \<le> T_period" "T_period \<le> 24"
    and spans: "T_closeness * len_closeness \<le> T_trend * len_trend"
               "T_period * len_period \<le> T_trend * len_trend"
               "T_trend * len_trend \<le> int (length (a_rows all_data))"
    and poi: "\<forall>g\<in>set (b_rows poi). concat g \<noteq> []"
             "length (b_rows poi) * b_height poi * b_width poi =
                length (b_rows poi) * a_height all_data * a_width all_data"
  shows "\<exists>fv. create_feature_vector all_data poi len_closeness len_period len_trend
                 T_closeness T_period T_trend = Inr fv \<and>
          length (a_rows (f_X_closeness fv)) = length (a_rows all_data) - nat (T_trend * len_trend) \<and>
          length (a_rows (f_X_period fv)) = length (a_rows all_data) - nat (T_trend * len_trend) \<and>
          length (a_rows (f_X_trend fv)) = length (a_rows all_data) - nat (T_trend * len_trend) \<and>
          length (a_rows (f_T_data fv)) = length (a_rows all_data) - nat (T_trend * len_trend) \<and>
          length (a_rows (f_P_data fv)) = length (a_rows all_data) - nat (T_trend * len_trend) \<and>
          length (a_rows (f_Y_data fv)) = length (a_rows all_data) - nat (T_trend * len_trend)"
proof -
  let ?n = "length (a_rows all_data)"
  let ?skip = "T_trend * len_trend"
  let ?m = "?n - nat ?skip"
  have "0 \<le> T_closeness * len_closeness" using lens steps by simp
  then have skip0: "0 \<le> ?skip" using spans(1) by simp
  then have Tt: "0 \<le> T_trend" using lens(3) by (simp add: zero_le_mult_iff)
  have nsh: "number_of_skip_hours len_closeness len_period len_trend T_closeness T_period T_trend
               = Inr ?skip"
    using lens by (simp add: number_of_skip_hours_def)
  obtain mT where mT: "matrix_T ?n T_period (a_height all_data) (a_width all_data) = Inr mT"
      "length (a_rows mT) = ?n"
    using matrix_T_ok[OF steps(2,3)] by blast
  obtain Xc where Xc: "lag_window all_data ?skip T_closeness len_closeness = Inr Xc"
      "a_rows Xc = map (lagged_frames all_data ?skip T_closeness len_closeness) [0..<?m]"
    using lag_window_rows[OF lens(1) steps(1) spans(1) spans(3)] by blast
  obtain Xp where Xp: "lag_window all_data ?skip T_period len_period = Inr Xp"
      "a_rows Xp = map (lagged_frames all_data ?skip T_period len_period) [0..<?m]"
    using lag_window_rows[OF lens(2) steps(2) spans(2) spans(3)] by blast
  obtain Xt where Xt: "lag_window all_data ?skip T_trend len_trend = Inr Xt"
      "a_rows Xt = map (lagged_frames all_data ?skip T_trend len_trend) [0..<?m]"
    using lag_window_rows[OF lens(3) Tt order_refl spans(3)] by blast
  obtain grids where g: "normalize_poi (b_rows poi) = Inr grids"
    using normalize_poi_ok[OF poi(1)] by blast
  obtain P where P: "repeat_poi poi grids (a_height all_data) (a_width all_data)
                       (length (a_rows Xc)) = Inr P"
    using repeat_poi_ok[OF poi(2)] by blast
  note fv = create_feature_vector_intro[OF mT(1) nsh lens(1) Xc(1) lens(2) Xp(1) lens(3) Xt(1) g P]
  have "length (a_rows P) = ?m"
    using repeat_poi_rows[OF P] Xc(2) by simp
  moreover have "length (a_rows (slice4_from ?skip mT)) = ?m"
    using slice4_from_rows[OF skip0, of mT] mT(2) by simp
  moreover have "length (a_rows (slice4 ?skip (int ?n) all_data)) = ?m"
    by (rule slice4_to_end_rows[OF skip0])
  ultimately show ?thesis
    using fv Xc(2) Xp(2) Xt(2) by simp
qed

lemma create_feature_vector_degenerate:
  assumes lens: "0 < len_closeness" "0 < len_period" "0 < len_trend"
    and steps: "0 \<le> T_period" "T_period \<le> 24"
    and far: "2 * int (length (a_rows all_data)) \<le> T_trend * len_trend"
    and poi: "\<forall>g\<in>set (b_rows poi). concat g \<noteq> []"
             "length (b_rows poi) * b_height poi * b_width poi =
                length (b_rows poi) * a_height all_data * a_width all_data"
  shows "\<exists>fv. create_feature_vector all_data poi len_closeness len_period len_trend
                 T_closeness T_period T_trend = Inr fv \<and>
          a_rows (f_X_closeness fv) = [] \<and> a_rows (f_X_period fv) = [] \<and>
          a_rows (f_X_trend fv) = [] \<and> a_rows (f_T_data fv) = [] \<and>
          a_rows (f_P_data fv) = [] \<and> a_rows (f_Y_data fv) = []"
proof -
  let ?n = "length (a_rows all_data)"
  let ?skip = "T_trend * len_trend"
  have nsh: "number_of_skip_hours len_closeness len_period len_trend T_closeness T_period T_trend
               = Inr ?skip"
    using lens by (simp add: number_of_skip_hours_def)
  obtain mT where mT: "matrix_T ?n T_period (a_height all_data) (a_width all_data) = Inr mT"
      "length (a_rows mT) = ?n"
    using matrix_T_ok[OF steps] by blast
  obtain Xc where Xc: "lag_window all_data ?skip T_closeness len_closeness = Inr Xc" "a_rows Xc = []"
    using lag_window_empty[OF far] by blast
  obtain Xp where Xp: "lag_window all_data ?skip T_period len_period = Inr Xp" "a_rows Xp = []"
    using lag_window_empty[OF far] by blast
  obtain Xt where Xt: "lag_window all_data ?skip T_trend len_trend = Inr Xt" "a_rows Xt = []"
    using lag_window_empty[OF far] by blast
  obtain grids where g: "normalize_poi (b_rows poi) = Inr grids"
    using normalize_poi_ok[OF poi(1)] by blast
  obtain P where P: "repeat_poi poi grids (a_height all_data) (a_width all_data)
                       (length (a_rows Xc)) = Inr P"
    using repeat_poi_ok[OF poi(2)] by blast
  note fv = create_feature_vector_intro[OF mT(1) nsh lens(1) Xc(1) lens(2) Xp(1) lens(3) Xt(1) g P]
  have "a_rows P = []"
    using repeat_poi_rows[OF P] Xc(2) by simp
  moreover have "a_rows (slice4_from ?skip mT) = []"
    using far mT(2) by (auto simp add: slice4_from_def slice_bound_def)
  moreover have "a_rows (slice4 ?skip (int ?n) all_data) = []"
    using far by (auto simp add: slice4_def slice_rows_def Let_def slice_bound_def)
  ultimately show ?thesis
    using fv Xc(2) Xp(2) Xt(2) by simp
qed

lemma init_built:
  assumes "flat4 flow_data \<noteq> []"
    and "create_feature_vector
          (if normalize'
           then map4 (\<lambda>x. (2 * x - (Max (set (flat4 flow_data)) + Min (set (flat4 flow_data)))) /
                           (Max (set (flat4 flow_data)) - Min (set (flat4 flow_data)))) flow_data
           else flow_data)
          poi_data len_closeness len_period len_trend T_closeness T_period T_trend = Inr fv"
  shows "init flow_data poi_data len_closeness len_period len_trend T_closeness T_period T_trend
           normalize' =
         Inr \<lparr>full_data = (if normalize'
           then map4 (\<lambda>x. (2 * x - (Max (set (flat4 flow_data)) + Min (set (flat4 flow_data)))) /
                           (Max (set (flat4 flow_data)) - Min (set (flat4 flow_data)))) flow_data
           else flow_data),
              min_max_diff = Max (set (flat4 flow_data)) - Min (set (flat4 flow_data)),
              X_closeness = f_X_closeness fv, X_period = f_X_period fv, X_trend = f_X_trend fv,
              T_data = f_T_data fv, P_data = f_P_data fv, Y_data = Tensor4 (f_Y_data fv),
              X_data = None, lead_time_data = None, lead_time = None,
              use_lead_time = False, sequential = False, periodical = True\<rparr>"
  using assms by (simp add: init_def np_max_flat np_min_flat Let_def)

lemma init_inverse:
  assumes "init flow_data poi_data len_closeness len_period len_trend T_closeness T_period T_trend
           normalize' = Inr ds"
  shows "flat4 flow_data \<noteq> [] \<and>
    (\<exists>fv. create_feature_vector (full_data ds)
          poi_data len_closeness len_period len_trend T_closeness T_period T_trend = Inr fv \<and>
      full_data ds = (if normalize'
           then map4 (\<lambda>x. (2 * x - (Max (set (flat4 flow_data)) + Min (set (flat4 flow_data)))) /
                           (Max (set (flat4 flow_data)) - Min (set (flat4 flow_data)))) flow_data
           else flow_data) \<and>
      min_max_diff ds = Max (set (flat4 flow_data)) - Min (set (flat4 flow_data)) \<and>
      X_closeness ds = f_X_closeness fv \<and> X_period ds = f_X_period fv \<and> X_trend ds = f_X_trend fv \<and>
      T_data ds = f_T_data fv \<and> P_data ds = f_P_data fv \<and> Y_data ds = Tensor4 (f_Y_data fv) \<and>
      \<not> use_lead_time ds \<and> \<not> sequential ds \<and> periodical ds)"
proof -
  have ne: "flat4 flow_data \<noteq> []"
    using assms by (auto simp add: init_def np_max_def split: list.splits)
  show ?thesis
    using assms ne
    by (auto simp add: init_def np_max_flat np_min_flat Let_def split: sum.splits)
qed

lemma flat4_ramp: "0 < n \<Longrightarrow> flat4 (ramp n) \<noteq> []"
  by (cases n) (simp_all add: flat4_def ramp_def upt_rec)

lemma unit_poi_ok:
  "\<forall>g\<in>set (b_rows unit_poi). concat g \<noteq> []"
  "length (b_rows unit_poi) * b_height unit_poi * b_width unit_poi =
     length (b_rows unit_poi) * a_height (ramp n) * a_width (ramp n)"
  by (simp_all add: unit_poi_def)

lemma normalized_fields [simp]:
  "length (a_rows (if b then map4 f a else a)) = length (a_rows a)"
  "a_height (if b then map4 f a else a) = a_height a"
  "a_width (if b then map4 f a else a) = a_width a"
  "a_chan (if b then map4 f a else a) = a_chan a"
  by simp_all

lemma init_aligned:
  assumes lens: "0 < len_closeness" "0 < len_period" "0 < len_trend"
    and steps: "0 \<le> T_closeness" "0 \<le> T_period" "T_period \<le> 24"
    and spans: "T_closeness * len_closeness \<le> T_trend * len_trend"
               "T_period * len_period \<le> T_trend * len_trend"
               "T_trend * len_trend \<le> int (length (a_rows flow_data))"
    and poi: "\<forall>g\<in>set (b_rows poi). concat g \<noteq> []"
             "length (b_rows poi) * b_height poi * b_width poi =
                length (b_rows poi) * a_height flow_data * a_width flow_data"
    and ne: "flat4 flow_data \<noteq> []"
  shows "\<exists>ds. init flow_data poi len_closeness len_period len_trend
                 T_closeness T_period T_trend normalize' = Inr ds \<and>
          length (a_rows (X_closeness ds)) = length (a_rows flow_data) - nat (T_trend * len_trend) \<and>
          length (a_rows (X_period ds)) = length (a_rows flow_data) - nat (T_trend * len_trend) \<and>
          length (a_rows (X_trend ds)) = length (a_rows flow_data) - nat (T_trend * len_trend) \<and>
          length (a_rows (T_data ds)) = length (a_rows flow_data) - nat (T_trend * len_trend) \<and>
          length (a_rows (P_data ds)) = length (a_rows flow_data) - nat (T_trend * len_trend) \<and>
          tensor_len (Y_data ds) = length (a_rows flow_data) - nat (T_trend * len_trend)"
proof -
  let ?full = "if normalize'
           then map4 (\<lambda>x. (2 * x - (Max (set (flat4 flow_data)) + Min (set (flat4 flow_data)))) /
                           (Max (set (flat4 flow_data)) - Min (set (flat4 flow_data)))) flow_data
           else flow_data"
  have s3: "T_trend * len_trend \<le> int (length (a_rows ?full))"
    using spans(3) by simp
  have p2: "length (b_rows poi) * b_height poi * b_width poi =
                length (b_rows poi) * a_height ?full * a_width ?full"
    using poi(2) by simp
  from create_feature_vector_aligned[OF lens steps spans(1,2) s3 poi(1) p2]
  obtain fv where fv: "create_feature_vector ?full poi len_closeness len_period len_trend
                 T_closeness T_period T_trend = Inr fv"
    and l: "length (a_rows (f_X_closeness fv)) = length (a_rows flow_data) - nat (T_trend * len_trend)"
       "length (a_rows (f_X_period fv)) = length (a_rows flow_data) - nat (T_trend * len_trend)"
       "length (a_rows (f_X_trend fv)) = length (a_rows flow_data) - nat (T_trend * len_trend)"
       "length (a_rows (f_T_data fv)) = length (a_rows flow_data) - nat (T_trend * len_trend)"
       "length (a_rows (f_P_data fv)) = length (a_rows flow_data) - nat (T_trend * len_trend)"
       "length (a_rows (f_Y_data fv)) = length (a_rows flow_data) - nat (T_trend * len_trend)"
    by auto
  show ?thesis
    unfolding init_built[OF ne fv] using l by (simp add: tensor_len_def)
qed

lemma init_degenerate:
  assumes lens: "0 < len_closeness" "0 < len_period" "0 < len_trend"
    and steps: "0 \<le> T_period" "T_period \<le> 24"
    and far: "2 * int (length (a_rows flow_data)) \<le> T_trend * len_trend"
    and poi: "\<forall>g\<in>set (b_rows poi). concat g \<noteq> []"
             "length (b_rows poi) * b_height poi * b_width poi =
                length (b_rows poi) * a_height flow_data * a_width flow_data"
    and ne: "flat4 flow_data \<noteq> []"
  shows "\<exists>ds. init flow_data poi len_closeness len_period len_trend
                 T_closeness T_period T_trend normalize' = Inr ds \<and>
          a_rows (X_closeness ds) = [] \<and> a_rows (X_period ds) = [] \<and> a_rows (X_trend ds) = [] \<and>
          a_rows (T_data ds) = [] \<and> a_rows (P_data ds) = [] \<and>
          tensor_len (Y_data ds) = 0 \<and> periodical ds \<and> len ds = Inr 0"
proof -
  let ?full = "if normalize'
           then map4 (\<lambda>x. (2 * x - (Max (set (flat4 flow_data)) + Min (set (flat4 flow_data)))) /
                           (Max (set (flat4 flow_data)) - Min (set (flat4 flow_data)))) flow_data
           else flow_data"
  have f: "2 * int (length (a_rows ?full)) \<le> T_trend * len_trend"
    using far by simp
  have p2: "length (b_rows poi) * b_height poi * b_width poi =
                length (b_rows poi) * a_height ?full * a_width ?full"
    using poi(2) by simp
  from create_feature_vector_degenerate[OF lens steps f poi(1) p2]
  obtain fv where fv: "create_feature_vector ?full poi len_closeness len_period len_trend
                 T_closeness T_period T_trend = Inr fv"
    and l: "a_rows (f_X_closeness fv) = []" "a_rows (f_X_period fv) = []"
       "a_rows (f_X_trend fv) = []" "a_rows (f_T_data fv) = []"
       "a_rows (f_P_data fv) = []" "a_rows (f_Y_data fv) = []"
    by auto
  show ?thesis
    unfolding init_built[OF ne fv] using l by (simp add: tensor_len_def len_def)
qed

text \<open>
  C3, as the specification states it, fails on configurations with at least one positive
  window length. With the closeness scale disabled the construction reads the attribute
  \<^verbatim>\<open>X_closeness\<close> that was never assigned; with all three scales enabled and a closeness
  span (2) larger than the trend span (1) the second closeness lag starts at index \<open>-1\<close>,
  is empty, and cannot be concatenated with the first.
\<close>

theorem construction_succeeds_counterexample:
  "create_feature_vector (ramp 3) unit_poi 0 1 1 1 1 1 = Inl AttributeError \<and>
   create_feature_vector (ramp 3) unit_poi 2 1 1 1 1 1 = Inl ValueError"
  by code_simp

text \<open>
  C3, amended. For every configuration in which all three window lengths are positive, the
  steps of closeness and period are not negative, \<open>T_period \<le> 24\<close>, neither the closeness
  span nor the period span exceeds the trend span \<open>T_trend * len_trend\<close> (the skip offset),
  the skip offset does not exceed \<open>len_total\<close>, every POI channel has a cell and the POI
  grid has the size of the flow grid: \<^verbatim>\<open>_create_feature_vector\<close> succeeds, and so does
  \<^verbatim>\<open>__init__\<close> on a series with at least one element, and the six arrays have the same
  leading dimension \<open>len_total - skip\<close>.
\<close>

theorem construction_arrays_aligned:
  assumes "0 < len_closeness" "0 < len_period" "0 < len_trend"
    and "0 \<le> T_closeness" "0 \<le> T_period" "T_period \<le> 24"
    and "T_closeness * len_closeness \<le> T_trend * len_trend"
        "T_period * len_period \<le> T_trend * len_trend"
        "T_trend * len_trend \<le> int (length (a_rows all_data))"
    and "\<forall>g\<in>set (b_rows poi). concat g \<noteq> []"
        "length (b_rows poi) * b_height poi * b_width poi =
           length (b_rows poi) * a_height all_data * a_width all_data"
  shows "(\<exists>fv. create_feature_vector all_data poi len_closeness len_period len_trend
                 T_closeness T_period T_trend = Inr fv \<and>
          length (a_rows (f_X_closeness fv)) = length (a_rows all_data) - nat (T_trend * len_trend) \<and>
          length (a_rows (f_X_period fv)) = length (a_rows all_data) - nat (T_trend * len_trend) \<and>
          length (a_rows (f_X_trend fv)) = length (a_rows all_data) - nat (T_trend * len_trend) \<and>
          length (a_rows (f_T_data fv)) = length (a_rows all_data) - nat (T_trend * len_trend) \<and>
          length (a_rows (f_P_data fv)) = length (a_rows all_data) - nat (T_trend * len_trend) \<and>
          length (a_rows (f_Y_data fv)) = length (a_rows all_data) - nat (T_trend * len_trend)) \<and>
         (flat4 all_data \<noteq> [] \<longrightarrow>
           (\<exists>ds. init all_data poi len_closeness len_period len_trend
                 T_closeness T_period T_trend normalize' = Inr ds \<and>
          length (a_rows (X_closeness ds)) = length (a_rows all_data) - nat (T_trend * len_trend) \<and>
          length (a_rows (X_period ds)) = length (a_rows all_data) - nat (T_trend * len_trend) \<and>
          length (a_rows (X_trend ds)) = length (a_rows all_data) - nat (T_trend * len_trend) \<and>
          length (a_rows (T_data ds)) = length (a_rows all_data) - nat (T_trend * len_trend) \<and>
          length (a_rows (P_data ds)) = length (a_rows all_data) - nat (T_trend * len_trend) \<and>
          tensor_len (Y_data ds) = length (a_rows all_data) - nat (T_trend * len_trend)))"
  using create_feature_vector_aligned[OF assms] init_aligned[OF assms] by blast

theorem construction_arrays_aligned_witness:
  "\<exists>ds. init (ramp 700) unit_poi 3 4 4 1 24 168 True = Inr ds \<and>
     length (a_rows (X_closeness ds)) = 28 \<and> length (a_rows (X_period ds)) = 28 \<and>
     length (a_rows (X_trend ds)) = 28 \<and> length (a_rows (T_data ds)) = 28 \<and>
     length (a_rows (P_data ds)) = 28 \<and> tensor_len (Y_data ds) = 28"
proof -
  have ne: "flat4 (ramp 700) \<noteq> []" by (rule flat4_ramp) simp
  have "\<exists>ds. init (ramp 700) unit_poi 3 4 4 1 24 168 True = Inr ds \<and>
     length (a_rows (X_closeness ds)) = length (a_rows (ramp 700)) - nat (168 * 4) \<and>
     length (a_rows (X_period ds)) = length (a_rows (ramp 700)) - nat (168 * 4) \<and>
     length (a_rows (X_trend ds)) = length (a_rows (ramp 700)) - nat (168 * 4) \<and>
     length (a_rows (T_data ds)) = length (a_rows (ramp 700)) - nat (168 * 4) \<and>
     length (a_rows (P_data ds)) = length (a_rows (ramp 700)) - nat (168 * 4) \<and>
     tensor_len (Y_data ds) = length (a_rows (ramp 700)) - nat (168 * 4)"
    using construction_arrays_aligned[of 3 4 4 1 24 168 "ramp 700" unit_poi True] ne unit_poi_ok
    by simp
  then show ?thesis by simp
qed

text \<open>
  C7, as the specification states it, fails: a skip offset beyond \<open>len_total\<close> does not
  always give empty arrays. With three frames and a trend window of two lags of two steps
  the offset is 4; the first trend lag \<^verbatim>\<open>all_data[2:1]\<close> is empty, the second is
  \<^verbatim>\<open>all_data[0:-1]\<close>, whose negative stop counts from the end and leaves two frames, and
  the concatenation raises \<^verbatim>\<open>ValueError\<close>.
\<close>

theorem skip_beyond_series_counterexample:
  "number_of_skip_hours 1 1 2 1 1 2 = Inr 4 \<and> length (a_rows (ramp 3)) = 3 \<and>
   a_rows (lag_slice (ramp 3) 4 2 1) = [] \<and>
   a_rows (lag_slice (ramp 3) 4 2 2) = [[[[0]]], [[[1]]]] \<and>
   create_feature_vector (ramp 3) unit_poi 1 1 2 1 1 2 = Inl ValueError \<and>
   init (ramp 3) unit_poi 1 1 2 1 1 2 True = Inl ValueError"
  by code_simp

text \<open>
  C7, amended. When the skip offset is at least twice \<open>len_total\<close> (as in the scenario of
  the specification: 672 against 200 frames), all three window lengths are positive,
  \<open>0 \<le> T_period \<le> 24\<close> and the inputs are well-formed (a series with at least one element,
  POI channels with at least one cell, a POI grid of the size of the flow grid),
  construction does not fail: the three scale arrays, \<^verbatim>\<open>T_data\<close>, \<^verbatim>\<open>P_data\<close> and \<^verbatim>\<open>Y_data\<close> have
  leading dimension 0, and \<^verbatim>\<open>__len__\<close> in the initial periodical mode returns 0.
\<close>

theorem skip_beyond_series_empty:
  assumes "0 < len_closeness" "0 < len_period" "0 < len_trend"
    and "0 \<le> T_period" "T_period \<le> 24"
    and "2 * int (length (a_rows flow_data)) \<le> T_trend * len_trend"
    and "\<forall>g\<in>set (b_rows poi). concat g \<noteq> []"
        "length (b_rows poi) * b_height poi * b_width poi =
           length (b_rows poi) * a_height flow_data * a_width flow_data"
    and "flat4 flow_data \<noteq> []"
  shows "number_of_skip_hours len_closeness len_period len_trend T_closeness T_period T_trend
           = Inr (T_trend * len_trend) \<and>
         int (length (a_rows flow_data)) < T_trend * len_trend \<and>
         (\<exists>ds. init flow_data poi len_closeness len_period len_trend
                 T_closeness T_period T_trend normalize' = Inr ds \<and>
            length (a_rows (X_closeness ds)) = 0 \<and> length (a_rows (X_period ds)) = 0 \<and>
            length (a_rows (X_trend ds)) = 0 \<and> length (a_rows (T_data ds)) = 0 \<and>
            length (a_rows (P_data ds)) = 0 \<and> tensor_len (Y_data ds) = 0 \<and>
            periodical ds \<and> len ds = Inr 0)"
proof -
  have "a_rows flow_data \<noteq> []"
    using assms(9) by (auto simp add: flat4_def)
  then have "0 < int (length (a_rows flow_data))" by simp
  then have 1: "int (length (a_rows flow_data)) < T_trend * len_trend"
    using assms(6) by linarith
  have 2: "number_of_skip_hours len_closeness len_period len_trend T_closeness T_period T_trend
           = Inr (T_trend * len_trend)"
    using assms(3) by (simp add: number_of_skip_hours_def)
  from init_degenerate[OF assms, of T_closeness normalize'] 1 2 show ?thesis
    by auto
qed

theorem skip_beyond_series_empty_witness:
  "number_of_skip_hours 3 4 4 1 24 168 = Inr 672 \<and> length (a_rows (ramp 200)) = 200 \<and>
   (\<exists>ds. init (ramp 200) unit_poi 3 4 4 1 24 168 True = Inr ds \<and>
      length (a_rows (X_closeness ds)) = 0 \<and> length (a_rows (X_period ds)) = 0 \<and>
      length (a_rows (X_trend ds)) = 0 \<and> length (a_rows (T_data ds)) = 0 \<and>
      length (a_rows (P_data ds)) = 0 \<and> tensor_len (Y_data ds) = 0 \<and> len ds = Inr 0)"
proof -
  have ne: "flat4 (ramp 200) \<noteq> []" by (rule flat4_ramp) simp
  have far: "2 * int (length (a_rows (ramp 200))) \<le> 168 * 4" by simp
  have l: "(0::int) < 3" "(0::int) < 4" "(0::int) < 4" "(0::int) \<le> 24" "(24::int) \<le> 24"
    by simp_all
  from skip_beyond_series_empty[OF l far unit_poi_ok ne, of 1 True]
  show ?thesis by simp blast
qed

section \<open>The temporal mask (C6)\<close>

text \<open>
  C6. Whenever the temporal mask \<^verbatim>\<open>matrix_T\<close> is built, it has shape \<open>(len_total, 31, H, W)\<close>
  and, for every timestep \<open>i < len_total\<close>, its first 24 channels are the hour mask and its
  last 7 the day mask: the hour channel addressed by \<open>time_hour\<close> and the day channel
  \<open>time_day\<close> hold 1 in every cell, every other channel holds 0, and each of the two masks
  sums to \<open>H * W\<close>. For a positive \<open>T_period\<close> the addressed channels are \<open>i mod T_period\<close> and
  \<open>(i div T_period) mod 7\<close>. The stored \<^verbatim>\<open>T_data\<close> holds at sample \<open>j\<close> the mask of timestep
  \<open>skip + j\<close>.
\<close>

theorem temporal_mask_one_hot:
  assumes "matrix_T (length (a_rows all_data)) T_period (a_height all_data) (a_width all_data) = Inr mT"
    and "i < length (a_rows all_data)"
  shows "(0 < T_period \<longrightarrow>
            wrap_index 24 (time_hour T_period i) = int i mod T_period \<and>
            time_day T_period i = (int i div T_period) mod 7) \<and>
         shape4 mT = (length (a_rows all_data), 31, a_height all_data, a_width all_data) \<and>
         length (a_rows mT ! i) = 31 \<and>
         (\<forall>c<24. a_rows mT ! i ! c =
             replicate (a_height all_data) (replicate (a_width all_data)
               (if int c = wrap_index 24 (time_hour T_period i) then 1 else 0))) \<and>
         (\<forall>c<7. a_rows mT ! i ! (24 + c) =
             replicate (a_height all_data) (replicate (a_width all_data)
               (if int c = time_day T_period i then 1 else 0))) \<and>
         frame_sum (take 24 (a_rows mT ! i)) = of_nat (a_height all_data * a_width all_data) \<and>
         frame_sum (drop 24 (a_rows mT ! i)) = of_nat (a_height all_data * a_width all_data) \<and>
         (\<forall>fv. create_feature_vector all_data poi len_closeness len_period len_trend
                  T_closeness T_period T_trend = Inr fv \<longrightarrow>
               0 \<le> T_trend * len_trend \<longrightarrow> i = nat (T_trend * len_trend) + j \<longrightarrow>
               a_rows (f_T_data fv) ! j = a_rows mT ! i) \<and>
         (\<forall>ds. init all_data poi len_closeness len_period len_trend
                  T_closeness T_period T_trend normalize' = Inr ds \<longrightarrow>
               0 \<le> T_trend * len_trend \<longrightarrow> i = nat (T_trend * len_trend) + j \<longrightarrow>
               a_rows (T_data ds) ! j = a_rows mT ! i)"
proof -
  let ?n = "length (a_rows all_data)"
  let ?H = "a_height all_data" and ?W = "a_width all_data"
  from matrix_T_row[OF assms] obtain mh md where
    mh: "matrix_hour ?n T_period ?H ?W = Inr mh" and md: "matrix_day ?n T_period ?H ?W = Inr md"
    and row: "a_rows mT ! i = a_rows mh ! i @ a_rows md ! i"
    by blast
  note P = hour_day_masks_one_hot[OF mh md assms(2)]
  from P have idx: "0 < T_period \<longrightarrow>
            wrap_index 24 (time_hour T_period i) = int i mod T_period \<and>
            time_day T_period i = (int i div T_period) mod 7"
    and lh: "length (a_rows mh ! i) = 24" and ld: "length (a_rows md ! i) = 7"
    and ch: "\<forall>c<24. a_rows mh ! i ! c =
             replicate ?H (replicate ?W (if int c = wrap_index 24 (time_hour T_period i) then 1 else 0))"
    and cd: "\<forall>c<7. a_rows md ! i ! c =
             replicate ?H (replicate ?W (if int c = time_day T_period i then 1 else 0))"
    and sh: "frame_sum (a_rows mh ! i) = of_nat (?H * ?W)"
    and sd: "frame_sum (a_rows md ! i) = of_nat (?H * ?W)"
    by blast+
  have shape: "shape4 mT = (?n, 31, ?H, ?W)"
    using matrix_T_built[OF assms(1)] by (auto simp add: shape4_def)
  have len: "length (a_rows mT ! i) = 31"
    unfolding row using lh ld by simp
  have hour: "\<forall>c<24. a_rows mT ! i ! c =
             replicate ?H (replicate ?W (if int c = wrap_index 24 (time_hour T_period i) then 1 else 0))"
    unfolding row using ch lh by (simp add: nth_append)
  have day: "\<forall>c<7. a_rows mT ! i ! (24 + c) =
             replicate ?H (replicate ?W (if int c = time_day T_period i then 1 else 0))"
  proof (intro allI impI)
    fix c :: nat
    assume c: "c < 7"
    have "(a_rows mh ! i @ a_rows md ! i) ! (length (a_rows mh ! i) + c) = a_rows md ! i ! c"
      by (rule nth_append_length_plus)
    then show "a_rows mT ! i ! (24 + c) =
             replicate ?H (replicate ?W (if int c = time_day T_period i then 1 else 0))"
      unfolding row using cd c lh by simp
  qed
  have th: "take 24 (a_rows mT ! i) = a_rows mh ! i" and dh: "drop 24 (a_rows mT ! i) = a_rows md ! i"
    unfolding row using lh by simp_all
  have sums: "frame_sum (take 24 (a_rows mT ! i)) = of_nat (?H * ?W)"
    "frame_sum (drop 24 (a_rows mT ! i)) = of_nat (?H * ?W)"
    unfolding th dh using sh sd by simp_all
  have T: "a_rows (f_T_data fv) ! j = a_rows mT ! i"
    if "create_feature_vector all_data poi len_closeness len_period len_trend
                  T_closeness T_period T_trend = Inr fv"
      "0 \<le> T_trend * len_trend" "i = nat (T_trend * len_trend) + j" for fv
    using T_data_row[OF that(1) assms(1) that(2)] assms(2) that(3) by simp
  have D: "a_rows (T_data ds) ! j = a_rows mT ! i"
    if init: "init all_data poi len_closeness len_period len_trend
                  T_closeness T_period T_trend normalize' = Inr ds"
      and s: "0 \<le> T_trend * len_trend" "i = nat (T_trend * len_trend) + j" for ds
  proof -
    from init_inverse[OF init] obtain fv where
      fv: "create_feature_vector (full_data ds) poi len_closeness len_period len_trend
             T_closeness T_period T_trend = Inr fv"
      and full: "full_data ds = (if normalize'
           then map4 (\<lambda>x. (2 * x - (Max (set (flat4 all_data)) + Min (set (flat4 all_data)))) /
                           (Max (set (flat4 all_data)) - Min (set (flat4 all_data)))) all_data
           else all_data)"
      and Td: "T_data ds = f_T_data fv"
      by blast
    have f: "length (a_rows (full_data ds)) = ?n" "a_height (full_data ds) = ?H"
      "a_width (full_data ds) = ?W"
      unfolding full by simp_all
    have m: "matrix_T (length (a_rows (full_data ds))) T_period (a_height (full_data ds))
               (a_width (full_data ds)) = Inr mT"
      unfolding f by (rule assms(1))
    have "nat (T_trend * len_trend) + j < length (a_rows (full_data ds))"
      using assms(2) s(2) f(1) by simp
    from T_data_row[OF fv m s(1) this] show ?thesis
      unfolding Td s(2) .
  qed
  from idx shape len hour day sums T D show ?thesis by blast
qed

theorem temporal_mask_one_hot_witness:
  "(\<exists>mT fv ds. matrix_T 30 24 1 1 = Inr mT \<and>
      create_feature_vector (ramp 30) unit_poi 1 1 1 1 24 25 = Inr fv \<and>
      init (ramp 30) unit_poi 1 1 1 1 24 25 True = Inr ds \<and>
      a_rows (f_T_data fv) ! 1 = a_rows mT ! 26 \<and> a_rows (T_data ds) ! 1 = a_rows mT ! 26 \<and>
      a_rows mT ! 26 ! 2 = [[1]] \<and> a_rows mT ! 26 ! 0 = [[0]] \<and>
      a_rows mT ! 26 ! 25 = [[1]] \<and> a_rows mT ! 26 ! 24 = [[0]] \<and>
      frame_sum (take 24 (a_rows mT ! 26)) = 1 \<and> frame_sum (drop 24 (a_rows mT ! 26)) = 1) \<and>
   (\<exists>mT. matrix_T 30 24 21 12 = Inr mT \<and> shape4 mT = (30, 31, 21, 12) \<and>
      a_rows mT ! 25 ! 1 = replicate 21 (replicate 12 1) \<and>
      frame_sum (take 24 (a_rows mT ! 25)) = 252 \<and> frame_sum (drop 24 (a_rows mT ! 25)) = 252)"
proof -
  have hd: "wrap_index 24 (time_hour 24 26) = 2" "time_day 24 26 = 1"
    "wrap_index 24 (time_hour 24 25) = 1" "time_day 24 25 = 1"
    by (simp_all add: wrap_index_def time_hour_def time_day_def np_mod_def np_floordiv_def)
  obtain mT where mT: "matrix_T (length (a_rows (ramp 30))) 24 (a_height (ramp 30))
                         (a_width (ramp 30)) = Inr mT"
    using matrix_T_ok[of 24 "length (a_rows (ramp 30))" "a_height (ramp 30)" "a_width (ramp 30)"]
    by auto
  have ne: "flat4 (ramp 30) \<noteq> []" by (rule flat4_ramp) simp
  have "\<exists>fv. create_feature_vector (ramp 30) unit_poi 1 1 1 1 24 25 = Inr fv"
    using create_feature_vector_aligned[of 1 1 1 1 24 25 "ramp 30" unit_poi] unit_poi_ok by auto
  then obtain fv where fv: "create_feature_vector (ramp 30) unit_poi 1 1 1 1 24 25 = Inr fv"
    by blast
  have "\<exists>ds. init (ramp 30) unit_poi 1 1 1 1 24 25 True = Inr ds"
    using init_aligned[of 1 1 1 1 24 25 "ramp 30" unit_poi True] unit_poi_ok ne by auto
  then obtain ds where ds: "init (ramp 30) unit_poi 1 1 1 1 24 25 True = Inr ds" by blast
  have i: "26 < length (a_rows (ramp 30))" by simp
  have s: "(0::int) \<le> 25 * 1" "(26::nat) = nat (25 * 1) + 1" by simp_all
  note t = temporal_mask_one_hot[OF mT i, unfolded hd, where j = 1 and poi = unit_poi
      and len_closeness = 1 and len_period = 1 and len_trend = 1 and T_closeness = 1
      and T_trend = 25 and normalize' = True]
  from t fv s have a1: "a_rows (f_T_data fv) ! 1 = a_rows mT ! 26" by blast
  from t ds s have a2: "a_rows (T_data ds) ! 1 = a_rows mT ! 26" by blast
  from t have h: "\<forall>c<24. a_rows mT ! 26 ! c =
      replicate (a_height (ramp 30)) (replicate (a_width (ramp 30)) (if int c = 2 then 1 else 0))"
    and d: "\<forall>c<7. a_rows mT ! 26 ! (24 + c) =
      replicate (a_height (ramp 30)) (replicate (a_width (ramp 30)) (if int c = 1 then 1 else 0))"
    and su: "frame_sum (take 24 (a_rows mT ! 26)) = of_nat (a_height (ramp 30) * a_width (ramp 30))"
       "frame_sum (drop 24 (a_rows mT ! 26)) = of_nat (a_height (ramp 30) * a_width (ramp 30))"
    by blast+
  from h have h2: "a_rows mT ! 26 ! 2 = [[1]]" "a_rows mT ! 26 ! 0 = [[0]]" by simp_all
  from d[rule_format, of 1] d[rule_format, of 0]
  have d2: "a_rows mT ! 26 ! 25 = [[1]]" "a_rows mT ! 26 ! 24 = [[0]]" by simp_all
  from su have su2: "frame_sum (take 24 (a_rows mT ! 26)) = 1"
    "frame_sum (drop 24 (a_rows mT ! 26)) = 1" by simp_all
  have A: "\<exists>mT fv ds. matrix_T 30 24 1 1 = Inr mT \<and>
      create_feature_vector (ramp 30) unit_poi 1 1 1 1 24 25 = Inr fv \<and>
      init (ramp 30) unit_poi 1 1 1 1 24 25 True = Inr ds \<and>
      a_rows (f_T_data fv) ! 1 = a_rows mT ! 26 \<and> a_rows (T_data ds) ! 1 = a_rows mT ! 26 \<and>
      a_rows mT ! 26 ! 2 = [[1]] \<and> a_rows mT ! 26 ! 0 = [[0]] \<and>
      a_rows mT ! 26 ! 25 = [[1]] \<and> a_rows mT ! 26 ! 24 = [[0]] \<and>
      frame_sum (take 24 (a_rows mT ! 26)) = 1 \<and> frame_sum (drop 24 (a_rows mT ! 26)) = 1"
    using mT fv ds a1 a2 h2 d2 su2 by auto
  let ?z = "np_zeros 30 2 21 12"
  obtain mZ where mZ: "matrix_T (length (a_rows ?z)) 24 (a_height ?z) (a_width ?z) = Inr mZ"
    using matrix_T_ok[of 24 "length (a_rows ?z)" "a_height ?z" "a_width ?z"] by auto
  have iz: "25 < length (a_rows ?z)" by simp
  note u = temporal_mask_one_hot[OF mZ iz, unfolded hd]
  from u have sz: "shape4 mZ = (length (a_rows ?z), 31, a_height ?z, a_width ?z)"
    and hz: "\<forall>c<24. a_rows mZ ! 25 ! c =
      replicate (a_height ?z) (replicate (a_width ?z) (if int c = 1 then 1 else 0))"
    and suz: "frame_sum (take 24 (a_rows mZ ! 25)) = of_nat (a_height ?z * a_width ?z)"
       "frame_sum (drop 24 (a_rows mZ ! 25)) = of_nat (a_height ?z * a_width ?z)"
    by blast+
  from hz have "a_rows mZ ! 25 ! 1 = replicate 21 (replicate 12 1)" by simp
  then have B: "\<exists>mT. matrix_T 30 24 21 12 = Inr mT \<and> shape4 mT = (30, 31, 21, 12) \<and>
      a_rows mT ! 25 ! 1 = replicate 21 (replicate 12 1) \<and>
      frame_sum (take 24 (a_rows mT ! 25)) = 252 \<and> frame_sum (drop 24 (a_rows mT ! 25)) = 252"
    using mZ sz suz by auto
  from A B show ?thesis by blast
qed

section \<open>The window slicer (C2)\<close>

lemma ramp_nth: "i < n \<Longrightarrow> a_rows (ramp n) ! i = [[[of_nat i]]]"
  by (simp add: ramp_def)

text \<open>
  C2, as the specification states it, fails for an enabled scale whose span exceeds the
  skip offset. With three frames, all lengths 1 and \<open>T_closeness = 2\<close>, \<open>T_trend = 1\<close>, the
  offset is 1 and the closeness slice is \<^verbatim>\<open>all_data[-1:1]\<close>: empty, while
  \<open>len_total - skip = 2\<close> (the shape of \<^verbatim>\<open>Y_data\<close>).
\<close>

theorem lag_window_shape_counterexample:
  "number_of_skip_hours 1 1 1 2 1 1 = Inr 1 \<and> length (a_rows (ramp 3)) = 3 \<and>
   map_sum id (shape4 \<circ> f_X_closeness) (create_feature_vector (ramp 3) unit_poi 1 1 1 2 1 1)
     = Inr (0, 1, 1, 1) \<and>
   map_sum id (shape4 \<circ> f_Y_data) (create_feature_vector (ramp 3) unit_poi 1 1 1 2 1 1)
     = Inr (2, 1, 1, 1)"
  by code_simp

text \<open>
  C2, amended. Whenever construction succeeds and the skip offset \<open>skip = T_trend * len_trend\<close>
  does not exceed \<open>len_total\<close>, every scale \<open>s\<close> with a step \<open>T_s \<ge> 0\<close> and a span
  \<open>T_s * L \<le> skip\<close> has a feature array of shape \<open>(len_total - skip, L * channels, H, W)\<close> whose
  sample \<open>j\<close> is the chain, along the channel axis and in the order \<open>k = 1..L\<close>, of the frames
  \<open>raw[skip + j - T_s * k]\<close>.
\<close>

theorem lag_window_contents:
  assumes "create_feature_vector all_data poi len_closeness len_period len_trend
             T_closeness T_period T_trend = Inr fv"
    and "T_trend * len_trend \<le> int (length (a_rows all_data))"
  shows "(0 \<le> T_closeness \<and> T_closeness * len_closeness \<le> T_trend * len_trend \<longrightarrow>
            shape4 (f_X_closeness fv) =
              (length (a_rows all_data) - nat (T_trend * len_trend),
               nat len_closeness * a_chan all_data, a_height all_data, a_width all_data) \<and>
            (\<forall>j < length (a_rows all_data) - nat (T_trend * len_trend).
               a_rows (f_X_closeness fv) ! j =
                 lagged_frames all_data (T_trend * len_trend) T_closeness len_closeness j)) \<and>
         (0 \<le> T_period \<and> T_period * len_period \<le> T_trend * len_trend \<longrightarrow>
            shape4 (f_X_period fv) =
              (length (a_rows all_data) - nat (T_trend * len_trend),
               nat len_period * a_chan all_data, a_height all_data, a_width all_data) \<and>
            (\<forall>j < length (a_rows all_data) - nat (T_trend * len_trend).
               a_rows (f_X_period fv) ! j =
                 lagged_frames all_data (T_trend * len_trend) T_period len_period j)) \<and>
         (0 \<le> T_trend \<longrightarrow>
            shape4 (f_X_trend fv) =
              (length (a_rows all_data) - nat (T_trend * len_trend),
               nat len_trend * a_chan all_data, a_height all_data, a_width all_data) \<and>
            (\<forall>j < length (a_rows all_data) - nat (T_trend * len_trend).
               a_rows (f_X_trend fv) ! j =
                 lagged_frames all_data (T_trend * len_trend) T_trend len_trend j))"
proof -
  let ?skip = "T_trend * len_trend"
  from create_feature_vector_built[OF assms(1)] obtain skip where
    nsh: "number_of_skip_hours len_closeness len_period len_trend T_closeness T_period T_trend = Inr skip"
    and c: "0 < len_closeness" "lag_window all_data skip T_closeness len_closeness = Inr (f_X_closeness fv)"
    and p: "0 < len_period" "lag_window all_data skip T_period len_period = Inr (f_X_period fv)"
    and t: "0 < len_trend" "lag_window all_data skip T_trend len_trend = Inr (f_X_trend fv)"
    by blast
  have skip: "skip = ?skip"
    using nsh t(1) by (simp add: number_of_skip_hours_def)
  have scale: "shape4 X = (length (a_rows all_data) - nat ?skip, nat L * a_chan all_data,
                           a_height all_data, a_width all_data) \<and>
               (\<forall>j < length (a_rows all_data) - nat ?skip.
                   a_rows X ! j = lagged_frames all_data ?skip T L j)"
    if "0 < L" "lag_window all_data ?skip T L = Inr X" "0 \<le> T" "T * L \<le> ?skip" for X T L
    using lag_window_rows[OF that(1) that(3) that(4) assms(2)] that(2)
    by (auto simp add: shape4_def)
  show ?thesis
    using scale[OF c(1) c(2)[unfolded skip]] scale[OF p(1) p(2)[unfolded skip]]
      scale[OF t(1) t(2)[unfolded skip]]
    by simp
qed

theorem lag_window_contents_witness:
  "\<exists>fv. create_feature_vector (ramp 700) unit_poi 3 4 4 1 24 168 = Inr fv \<and>
     shape4 (f_X_closeness fv) = (28, 3, 1, 1) \<and>
     shape4 (f_X_period fv) = (28, 4, 1, 1) \<and>
     shape4 (f_X_trend fv) = (28, 4, 1, 1) \<and>
     a_rows (f_X_closeness fv) ! 0 = [[[671]], [[670]], [[669]]] \<and>
     a_rows (f_X_period fv) ! 0 = [[[648]], [[624]], [[600]], [[576]]] \<and>
     a_rows (f_X_trend fv) ! 27 = [[[531]], [[363]], [[195]], [[27]]]"
proof -
  have "\<exists>fv. create_feature_vector (ramp 700) unit_poi 3 4 4 1 24 168 = Inr fv"
    using create_feature_vector_aligned[of 3 4 4 1 24 168 "ramp 700" unit_poi] unit_poi_ok
    by auto
  then obtain fv where fv: "create_feature_vector (ramp 700) unit_poi 3 4 4 1 24 168 = Inr fv"
    by blast
  have n: "(168::int) * 4 \<le> int (length (a_rows (ramp 700)))" by simp
  note w = lag_window_contents[OF fv n]
  have u3: "[1..3::int] = [1, 2, 3]" and u4: "[1..4::int] = [1, 2, 3, 4]"
    by (simp_all add: upto.simps)
  have c: "shape4 (f_X_closeness fv) = (28, 3, 1, 1)"
    "a_rows (f_X_closeness fv) ! 0 = lagged_frames (ramp 700) (168 * 4) 1 3 0"
    using w by simp_all
  have p: "shape4 (f_X_period fv) = (28, 4, 1, 1)"
    "a_rows (f_X_period fv) ! 0 = lagged_frames (ramp 700) (168 * 4) 24 4 0"
    using w by simp_all
  have t: "shape4 (f_X_trend fv) = (28, 4, 1, 1)"
    "a_rows (f_X_trend fv) ! 27 = lagged_frames (ramp 700) (168 * 4) 168 4 27"
    using w by simp_all
  have "lagged_frames (ramp 700) (168 * 4) 1 3 0 = [[[671]], [[670]], [[669]]]"
    "lagged_frames (ramp 700) (168 * 4) 24 4 0 = [[[648]], [[624]], [[600]], [[576]]]"
    "lagged_frames (ramp 700) (168 * 4) 168 4 27 = [[[531]], [[363]], [[195]], [[27]]]"
    by (simp_all add: lagged_frames_def u3 u4 ramp_nth)
  with fv c p t show ?thesis by simp
qed

section \<open>Normalisation (C5)\<close>

lemma slice_rows_map: "slice_rows a b (map f xs) = map f (slice_rows a b xs)"
  by (simp add: slice_rows_def Let_def take_map drop_map)

lemma map4_slice4: "map4 f (slice4 a b x) = slice4 a b (map4 f x)"
  by (simp add: map4_def slice4_def slice_rows_map)

lemma map4_map4: "map4 f (map4 g x) = map4 (f \<circ> g) x"
  by (simp add: map4_def)

lemma map4_id: "(\<And>x. f x = x) \<Longrightarrow> map4 f a = a"
proof -
  assume "\<And>x. f x = x"
  then have "f = id" by auto
  then show ?thesis by (simp add: map4_def)
qed

lemma denormalize_normalize:
  "mx \<noteq> mn \<Longrightarrow> denormalize mx mn ((2 * x - (mx + mn)) / (mx - mn)) = x"
  by (simp add: denormalize_def field_simps)

text \<open>
  C5. With \<^verbatim>\<open>normalize=True\<close>, a constructed dataset holds the series in which every element
  \<open>x\<close> is replaced by \<open>(2x - (max + min)) / (max - min)\<close>, \<open>max\<close> and \<open>min\<close> being the largest and
  smallest element of the raw series; \<^verbatim>\<open>get_min_max_difference\<close> returns \<open>max - min\<close>, also
  after a mode switch; and for \<open>max > min\<close> the inverse map \<open>y \<mapsto> (y (max - min) + (max + min)) / 2\<close>
  takes the normalised series back to the raw one and \<^verbatim>\<open>Y_data\<close> back to the raw frames from
  the skip offset on.
\<close>

theorem normalization_round_trip:
  assumes "init flow_data poi_data len_closeness len_period len_trend T_closeness T_period T_trend
             True = Inr ds"
  shows "flat4 flow_data \<noteq> [] \<and>
     full_data ds =
       map4 (\<lambda>x. (2 * x - (Max (set (flat4 flow_data)) + Min (set (flat4 flow_data)))) /
                   (Max (set (flat4 flow_data)) - Min (set (flat4 flow_data)))) flow_data \<and>
     get_min_max_difference ds = Max (set (flat4 flow_data)) - Min (set (flat4 flow_data)) \<and>
     get_min_max_difference (merge_closeness_period_trend ds lead_time') = get_min_max_difference ds \<and>
     (\<forall>ds'. set_sequential_representation ds hl pl = Inr ds' \<longrightarrow>
        get_min_max_difference ds' = get_min_max_difference ds) \<and>
     (Min (set (flat4 flow_data)) < Max (set (flat4 flow_data)) \<longrightarrow>
        map4 (denormalize (Max (set (flat4 flow_data))) (Min (set (flat4 flow_data)))) (full_data ds)
          = flow_data \<and>
        (\<exists>Y. Y_data ds = Tensor4 Y \<and>
           map4 (denormalize (Max (set (flat4 flow_data))) (Min (set (flat4 flow_data)))) Y
             = slice4 (T_trend * len_trend) (int (length (a_rows flow_data))) flow_data))"
proof -
  let ?mx = "Max (set (flat4 flow_data))"
  let ?mn = "Min (set (flat4 flow_data))"
  let ?norm = "\<lambda>x. (2 * x - (?mx + ?mn)) / (?mx - ?mn)"
  from init_inverse[OF assms] obtain fv where
    ne: "flat4 flow_data \<noteq> []"
    and fv: "create_feature_vector (full_data ds) poi_data len_closeness len_period len_trend
               T_closeness T_period T_trend = Inr fv"
    and full: "full_data ds = map4 ?norm flow_data"
    and diff: "min_max_diff ds = ?mx - ?mn"
    and Y: "Y_data ds = Tensor4 (f_Y_data fv)"
    by auto
  from create_feature_vector_built[OF fv] obtain skip where
    nsh: "number_of_skip_hours len_closeness len_period len_trend T_closeness T_period T_trend = Inr skip"
    and lt: "0 < len_trend"
    and fY: "f_Y_data fv = slice4 skip (int (length (a_rows (full_data ds)))) (full_data ds)"
    by blast
  have skip: "skip = T_trend * len_trend"
    using nsh lt by (simp add: number_of_skip_hours_def)
  have fY': "f_Y_data fv = slice4 (T_trend * len_trend) (int (length (a_rows flow_data)))
                             (map4 ?norm flow_data)"
    using fY unfolding skip full by simp
  have 1: "get_min_max_difference ds = ?mx - ?mn"
    using diff by (simp add: get_min_max_difference_def)
  have 2: "get_min_max_difference (merge_closeness_period_trend ds lead_time') = get_min_max_difference ds"
    by (simp add: get_min_max_difference_def merge_closeness_period_trend_def)
  have 3: "\<forall>ds'. set_sequential_representation ds hl pl = Inr ds' \<longrightarrow>
        get_min_max_difference ds' = get_min_max_difference ds"
    by (auto simp add: get_min_max_difference_def set_sequential_representation_def Let_def
        split: sum.splits)
  have 4: "map4 (denormalize ?mx ?mn) (full_data ds) = flow_data \<and>
        (\<exists>Y. Y_data ds = Tensor4 Y \<and>
           map4 (denormalize ?mx ?mn) Y
             = slice4 (T_trend * len_trend) (int (length (a_rows flow_data))) flow_data)"
    if less: "?mn < ?mx"
  proof -
    have inv: "map4 (denormalize ?mx ?mn) (map4 ?norm flow_data) = flow_data"
      unfolding map4_map4
      by (rule map4_id) (use less in \<open>simp add: denormalize_normalize\<close>)
    have "map4 (denormalize ?mx ?mn) (f_Y_data fv)
            = slice4 (T_trend * len_trend) (int (length (a_rows flow_data))) flow_data"
      unfolding fY' map4_slice4 inv ..
    then show ?thesis using inv full Y by simp
  qed
  from ne full 1 2 3 4 show ?thesis by blast
qed

theorem normalization_round_trip_witness:
  "\<exists>ds. init (ramp 5) unit_poi 1 1 1 1 1 1 True = Inr ds \<and>
     get_min_max_difference ds = 4 \<and>
     full_data ds = map4 (\<lambda>x. (2 * x - (4 + 0)) / (4 - 0)) (ramp 5) \<and>
     map4 (denormalize 4 0) (full_data ds) = ramp 5 \<and>
     (\<exists>Y. Y_data ds = Tensor4 Y \<and> map4 (denormalize 4 0) Y = slice4 1 5 (ramp 5))"
proof -
  have ne: "flat4 (ramp 5) \<noteq> []" by (rule flat4_ramp) simp
  have "\<exists>ds. init (ramp 5) unit_poi 1 1 1 1 1 1 True = Inr ds"
    using init_aligned[of 1 1 1 1 1 1 "ramp 5" unit_poi True] unit_poi_ok ne by auto
  then obtain ds where ds: "init (ramp 5) unit_poi 1 1 1 1 1 1 True = Inr ds" by blast
  have f: "flat4 (ramp 5) = [0, 1, 2, 3, 4]" by code_simp
  have mx: "Max (set (flat4 (ramp 5))) = 4" and mn: "Min (set (flat4 (ramp 5))) = 0"
    unfolding f by simp_all
  have less: "(0::rat) < 4" by simp
  note r = normalization_round_trip[OF ds, unfolded mx mn, of 0 0 0]
  from r less have a: "full_data ds = map4 (\<lambda>x. (2 * x - (4 + 0)) / (4 - 0)) (ramp 5)"
    and b: "get_min_max_difference ds = 4 - 0"
    and c: "map4 (denormalize 4 0) (full_data ds) = ramp 5"
    and d: "\<exists>Y. Y_data ds = Tensor4 Y \<and>
              map4 (denormalize 4 0) Y = slice4 (1 * 1) (int (length (a_rows (ramp 5)))) (ramp 5)"
    by blast+
  from b have b': "get_min_max_difference ds = 4" by simp
  from d have d': "\<exists>Y. Y_data ds = Tensor4 Y \<and> map4 (denormalize 4 0) Y = slice4 1 5 (ramp 5)"
    by simp
  from ds a b' c d' show ?thesis by blast
qed

section \<open>Mode switches (C8, C9)\<close>

lemma np_stack_ok:
  assumes "xs \<noteq> []" "\<forall>x\<in>set xs. shape4 x = s"
  shows "np_stack xs = Inr (Tensor5 xs)"
  using assms by (cases xs) (auto simp add: np_stack_def list_all_iff)

lemma slice4_inner_shape:
  assumes "0 \<le> a" "a \<le> b" "b \<le> int (length (a_rows x))"
  shows "shape4 (slice4 a b x) = (nat (b - a), a_chan x, a_height x, a_width x)"
proof -
  have "length (slice_rows a b (a_rows x)) = nat (b - a)"
    using assms by (simp add: slice_rows_inner)
  then show ?thesis by (simp add: shape4_def slice4_def)
qed


text \<open>
  C9. \<^verbatim>\<open>set_sequential_representation(history_length, prediction_length)\<close> raises
  (\<^verbatim>\<open>ValueError\<close>, from \<^verbatim>\<open>np.stack\<close> of an empty list) whenever
  \<open>history_length + prediction_length \<ge> len_total\<close>; for lengths that are not negative and
  \<open>history_length + prediction_length < len_total\<close> it succeeds and \<^verbatim>\<open>__len__\<close> then returns
  \<open>len_total - history_length - prediction_length\<close>. So, for such lengths, it raises if and
  only if \<open>history_length + prediction_length \<ge> len_total\<close>.
\<close>

theorem set_sequential_representation_raises_iff:
  "(int (length (a_rows (full_data ds))) \<le> history_length + prediction_length \<longrightarrow>
      set_sequential_representation ds history_length prediction_length = Inl ValueError) \<and>
   (0 \<le> history_length \<and> 0 \<le> prediction_length \<and>
    history_length + prediction_length < int (length (a_rows (full_data ds))) \<longrightarrow>
      (\<exists>ds'. set_sequential_representation ds history_length prediction_length = Inr ds' \<and>
             len ds' = Inr (int (length (a_rows (full_data ds))) - history_length - prediction_length) \<and>
             sequential ds' \<and> \<not> periodical ds' \<and> \<not> use_lead_time ds')) \<and>
   (0 \<le> history_length \<and> 0 \<le> prediction_length \<longrightarrow>
      (isl (set_sequential_representation ds history_length prediction_length) \<longleftrightarrow>
       int (length (a_rows (full_data ds))) \<le> history_length + prediction_length))"
proof -
  let ?n = "int (length (a_rows (full_data ds)))"
  let ?h = history_length and ?p = prediction_length
  let ?ends = "[?h + ?p .. ?n - 1]"
  let ?hist = "map (\<lambda>e. slice4 (e - ?p - ?h) (e - ?p) (full_data ds)) ?ends"
  let ?pred = "map (\<lambda>e. slice4 (e - ?p) e (full_data ds)) ?ends"
  have A: "set_sequential_representation ds ?h ?p = Inl ValueError" if "?n \<le> ?h + ?p"
  proof -
    have "?ends = []" using that by simp
    then show ?thesis
      by (simp add: set_sequential_representation_def Let_def np_stack_def)
  qed
  have B: "\<exists>ds'. set_sequential_representation ds ?h ?p = Inr ds' \<and>
             len ds' = Inr (?n - ?h - ?p) \<and>
             sequential ds' \<and> \<not> periodical ds' \<and> \<not> use_lead_time ds'"
    if h: "0 \<le> ?h" and p: "0 \<le> ?p" and lt: "?h + ?p < ?n"
  proof -
    have ne: "?ends \<noteq> []" using lt by simp
    have hs: "\<forall>x\<in>set ?hist. shape4 x = (nat ?h, a_chan (full_data ds),
                 a_height (full_data ds), a_width (full_data ds))"
    proof
      fix x assume "x \<in> set ?hist"
      then obtain e where e: "?h + ?p \<le> e" "e \<le> ?n - 1"
        and x: "x = slice4 (e - ?p - ?h) (e - ?p) (full_data ds)" by auto
      have "shape4 x = (nat ((e - ?p) - (e - ?p - ?h)), a_chan (full_data ds),
                 a_height (full_data ds), a_width (full_data ds))"
        unfolding x using e h p by (intro slice4_inner_shape) auto
      then show "shape4 x = (nat ?h, a_chan (full_data ds),
                 a_height (full_data ds), a_width (full_data ds))" by simp
    qed
    have ps: "\<forall>x\<in>set ?pred. shape4 x = (nat ?p, a_chan (full_data ds),
                 a_height (full_data ds), a_width (full_data ds))"
    proof
      fix x assume "x \<in> set ?pred"
      then obtain e where e: "?h + ?p \<le> e" "e \<le> ?n - 1"
        and x: "x = slice4 (e - ?p) e (full_data ds)" by auto
      have "shape4 x = (nat (e - (e - ?p)), a_chan (full_data ds),
                 a_height (full_data ds), a_width (full_data ds))"
        unfolding x using e h p by (intro slice4_inner_shape) auto
      then show "shape4 x = (nat ?p, a_chan (full_data ds),
                 a_height (full_data ds), a_width (full_data ds))" by simp
    qed
    have sh: "np_stack ?hist = Inr (Tensor5 ?hist)"
      by (rule np_stack_ok[OF _ hs]) (use ne in simp)
    have sp: "np_stack ?pred = Inr (Tensor5 ?pred)"
      by (rule np_stack_ok[OF _ ps]) (use ne in simp)
    have "length ?ends = nat (?n - ?h - ?p)"
      using lt by (simp add: algebra_simps)
    then have "int (length ?pred) = ?n - ?h - ?p" using lt by simp
    then show ?thesis
      using sh sp
      by (simp add: set_sequential_representation_def Let_def len_def tensor_len_def)
  qed
  have C: "isl (set_sequential_representation ds ?h ?p) \<longleftrightarrow> ?n \<le> ?h + ?p"
    if h: "0 \<le> ?h" and p: "0 \<le> ?p"
  proof (cases "?n \<le> ?h + ?p")
    case True
    then show ?thesis using A by simp
  next
    case False
    then have "?h + ?p < ?n" by simp
    from B[OF h p this] False show ?thesis by auto
  qed
  from A B C show ?thesis by blast
qed

theorem set_sequential_representation_raises_iff_witness:
  "set_sequential_representation demo_ds 2 1 = Inl ValueError \<and>
   (\<exists>ds'. set_sequential_representation demo_ds 1 1 = Inr ds' \<and> len ds' = Inr 1)"
proof -
  have n: "int (length (a_rows (full_data demo_ds))) = 3" by code_simp
  note r = set_sequential_representation_raises_iff[where ds = demo_ds, unfolded n]
  have "(3::int) \<le> 2 + 1" by simp
  with r[of 2 1] have 1: "set_sequential_representation demo_ds 2 1 = Inl ValueError" by blast
  have "(0::int) \<le> 1 \<and> (0::int) \<le> 1 \<and> (1::int) + 1 < 3" by simp
  with r[of 1 1] have "\<exists>ds'. set_sequential_representation demo_ds 1 1 = Inr ds' \<and>
      len ds' = Inr (3 - 1 - 1)" by blast
  then have 2: "\<exists>ds'. set_sequential_representation demo_ds 1 1 = Inr ds' \<and> len ds' = Inr 1"
    by simp
  from 1 2 show ?thesis by blast
qed






end
